theory Spec2Isabelle
  imports Complex_Main "HOL-Library.Sublist" "HOL-Library.AList"
begin

section \<open>Strings\<close>

text \<open>
  A JavaScript string is modelled as a \<^typ>\<open>string\<close>, one \<^typ>\<open>char\<close> per code unit,
  for the code units below 256 (ASCII and Latin-1). On that range
  \<^verbatim>\<open>String.prototype.toLowerCase\<close> maps A-Z and the capital letters 192-222 (215, the
  multiplication sign, apart) to the code unit 32 above, and leaves the rest alone.
\<close>

definition lower_char :: "char \<Rightarrow> char" where
  "lower_char c =
     (let n = (of_char c :: nat)
      in if (65 \<le> n \<and> n \<le> 90) \<or> (192 \<le> n \<and> n \<le> 222 \<and> n \<noteq> 215)
         then char_of (n + 32) else c)"

definition toLowerCase :: "string \<Rightarrow> string" where
  "toLowerCase s = map lower_char s"

text \<open>\<^verbatim>\<open>s.includes(sub)\<close>: \<open>sub\<close> occurs in \<open>s\<close> as a contiguous run.\<close>

fun str_includes :: "string \<Rightarrow> string \<Rightarrow> bool" where
  "str_includes [] sub = (sub = [])"
| "str_includes (c # cs) sub = (prefix sub (c # cs) \<or> str_includes cs sub)"

section \<open>Technique mapping (server/services/mitre-attack.ts)\<close>

record Vulnerability =
  v_id :: nat
  v_scanId :: nat
  v_severity :: string
  v_type :: string
  v_description :: string
  v_cvss :: "string option"
  v_remediation :: "string option"

record MitreAttackMapping =
  techniqueId :: string
  confidence :: rat
  reasoning :: string

record RiskAssessment =
  likelihood :: rat
  impact :: rat
  overall :: rat

record MitreAnalysisResult =
  vulnerabilityId :: nat
  mappings :: "MitreAttackMapping list"
  attackPath :: "string list"
  riskAssessment :: RiskAssessment

text \<open>
  The inference provider is an outcome handed to the model: it either fails (the call
  throws, times out, or \<^verbatim>\<open>JSON.parse\<close> throws on its text) or yields the parsed bundle.
\<close>

datatype provider_error = CallError string | Timeout | InvalidOutput string

record MitrePayload =
  p_mappings :: "MitreAttackMapping list"
  p_attackPath :: "string list"
  p_riskAssessment :: RiskAssessment

text \<open>
  \<^verbatim>\<open>getSeverityScore\<close>: a switch on the lower-cased severity. The scores are JavaScript
  numbers; the five scores and their products with 0.8 and 0.9 are the same in double
  arithmetic and in the rationals (76, 85.5, 64, 72, 48, 54, 24, 27, 40, 45), so
  \<^typ>\<open>rat\<close> carries them.
\<close>

definition getSeverityScore :: "string \<Rightarrow> rat" where
  "getSeverityScore severity =
     (let s = toLowerCase severity
      in if s = ''critical'' then 95
         else if s = ''high'' then 80
         else if s = ''medium'' then 60
         else if s = ''low'' then 30
         else 50)"

text \<open>
  \<^verbatim>\<open>getFallbackMapping\<close>: the two arrays \<^verbatim>\<open>mappings\<close> and \<^verbatim>\<open>attackPath\<close> start empty
  and the three \<^verbatim>\<open>if\<close> statements push onto them in turn.
\<close>

definition getFallbackMapping :: "Vulnerability \<Rightarrow> MitreAnalysisResult" where
  "getFallbackMapping vulnerability =
     (let vulnType = toLowerCase (v_type vulnerability);
          st0 = ([], []);
          st1 = (if str_includes vulnType ''sql injection'' \<or> str_includes vulnType ''xss''
                    \<or> str_includes vulnType ''rce''
                 then (fst st0 @ [\<lparr>techniqueId = ''T1190'', confidence = 85,
                         reasoning = ''Web application vulnerability allowing exploitation of public-facing application''\<rparr>],
                       snd st0 @ [''T1190''])
                 else st0);
          st2 = (if str_includes vulnType ''privilege escalation''
                 then (fst st1 @ [\<lparr>techniqueId = ''T1068'', confidence = 80,
                         reasoning = ''Vulnerability allows privilege escalation''\<rparr>],
                       snd st1 @ [''T1068''])
                 else st1);
          st3 = (if str_includes vulnType ''service'' \<or> str_includes vulnType ''port''
                 then (fst st2 @ [\<lparr>techniqueId = ''T1021'', confidence = 70,
                         reasoning = ''Remote service vulnerability''\<rparr>],
                       snd st2 @ [''T1021''])
                 else st2);
          severityScore = getSeverityScore (v_severity vulnerability)
      in \<lparr>vulnerabilityId = v_id vulnerability,
          mappings = fst st3,
          attackPath = snd st3,
          riskAssessment = \<lparr>likelihood = severityScore * (8 / 10),
                              impact = severityScore,
                              overall = severityScore * (9 / 10)\<rparr>\<rparr>)"

text \<open>
  \<^verbatim>\<open>analyzeVulnerabilityForMitre\<close>: the provider call and the parse are inside one
  \<^verbatim>\<open>try\<close>; its \<^verbatim>\<open>catch\<close> returns the fallback mapping.
\<close>

definition analyzeVulnerabilityForMitre ::
    "provider_error + MitrePayload \<Rightarrow> Vulnerability \<Rightarrow> MitreAnalysisResult" where
  "analyzeVulnerabilityForMitre response vulnerability =
     (case response of
        Inr analysis \<Rightarrow>
          \<lparr>vulnerabilityId = v_id vulnerability,
           mappings = p_mappings analysis,
           attackPath = p_attackPath analysis,
           riskAssessment = p_riskAssessment analysis\<rparr>
      | Inl error \<Rightarrow> getFallbackMapping vulnerability)"

section \<open>Regular expressions\<close>

text \<open>
  The two patterns of \<^verbatim>\<open>validateTarget\<close> are anchored at both ends and carry no flags, so
  \<^verbatim>\<open>test\<close> decides whether the whole string belongs to a regular language. The matcher
  takes the derivative of the expression by each code unit in turn.
\<close>

datatype rexp =
    Zero
  | One
  | Class "char \<Rightarrow> bool"
  | Alt rexp rexp
  | Seq rexp rexp
  | Star rexp

fun nullable :: "rexp \<Rightarrow> bool" where
  "nullable Zero = False"
| "nullable One = True"
| "nullable (Class p) = False"
| "nullable (Alt r s) = (nullable r \<or> nullable s)"
| "nullable (Seq r s) = (nullable r \<and> nullable s)"
| "nullable (Star r) = True"

fun deriv :: "char \<Rightarrow> rexp \<Rightarrow> rexp" where
  "deriv c Zero = Zero"
| "deriv c One = Zero"
| "deriv c (Class p) = (if p c then One else Zero)"
| "deriv c (Alt r s) = Alt (deriv c r) (deriv c s)"
| "deriv c (Seq r s) =
     (if nullable r then Alt (Seq (deriv c r) s) (deriv c s) else Seq (deriv c r) s)"
| "deriv c (Star r) = Seq (deriv c r) (Star r)"

fun regex_test :: "rexp \<Rightarrow> string \<Rightarrow> bool" where
  "regex_test r [] = nullable r"
| "regex_test r (c # cs) = regex_test (deriv c r) cs"

text \<open>
  The language of an expression, against which the matcher is checked below: \<open>star A\<close>
  is the set of concatenations of finitely many words of \<open>A\<close>.
\<close>

inductive_set star :: "string set \<Rightarrow> string set" for A :: "string set" where
  star_empty: "[] \<in> star A"
| star_more: "u \<in> A \<Longrightarrow> v \<in> star A \<Longrightarrow> u @ v \<in> star A"

fun lang :: "rexp \<Rightarrow> string set" where
  "lang Zero = {}"
| "lang One = {[]}"
| "lang (Class p) = {[c] | c. p c}"
| "lang (Alt r s) = lang r \<union> lang s"
| "lang (Seq r s) = {u @ v | u v. u \<in> lang r \<and> v \<in> lang s}"
| "lang (Star r) = star (lang r)"

text \<open>\<^verbatim>\<open>r?\<close>, \<^verbatim>\<open>r{0,n}\<close> and \<^verbatim>\<open>r{n}\<close>.\<close>

definition opt :: "rexp \<Rightarrow> rexp" where
  "opt r = Alt r One"

fun upto :: "nat \<Rightarrow> rexp \<Rightarrow> rexp" where
  "upto 0 r = One"
| "upto (Suc n) r = opt (Seq r (upto n r))"

fun times :: "nat \<Rightarrow> rexp \<Rightarrow> rexp" where
  "times 0 r = One"
| "times (Suc n) r = Seq r (times n r)"

definition chr_range :: "char \<Rightarrow> char \<Rightarrow> char \<Rightarrow> bool" where
  "chr_range lo hi c = ((of_char lo :: nat) \<le> of_char c \<and> (of_char c :: nat) \<le> of_char hi)"

definition lit :: "char \<Rightarrow> rexp" where
  "lit a = Class (\<lambda>c. c = a)"

text \<open>\<^verbatim>\<open>[a-zA-Z0-9]\<close> and \<^verbatim>\<open>[a-zA-Z0-9-]\<close>.\<close>

definition alnum :: "char \<Rightarrow> bool" where
  "alnum c = (chr_range CHR ''a'' CHR ''z'' c \<or> chr_range CHR ''A'' CHR ''Z'' c
              \<or> chr_range CHR ''0'' CHR ''9'' c)"

definition alnum_dash :: "char \<Rightarrow> bool" where
  "alnum_dash c = (alnum c \<or> c = CHR ''-'')"

text \<open>\<^verbatim>\<open>[a-zA-Z0-9]([a-zA-Z0-9-]{0,61}[a-zA-Z0-9])?\<close>\<close>

definition label_rexp :: rexp where
  "label_rexp = Seq (Class alnum) (opt (Seq (upto 61 (Class alnum_dash)) (Class alnum)))"

text \<open>\<^verbatim>\<open>/^label(\.label)*$/\<close>\<close>

definition domainRegex :: rexp where
  "domainRegex = Seq label_rexp (Star (Seq (lit CHR ''.'') label_rexp))"

text \<open>\<^verbatim>\<open>25[0-5]|2[0-4][0-9]|[01]?[0-9][0-9]?\<close>\<close>

definition octet_rexp :: rexp where
  "octet_rexp =
     Alt (Seq (lit CHR ''2'') (Seq (lit CHR ''5'') (Class (chr_range CHR ''0'' CHR ''5''))))
    (Alt (Seq (lit CHR ''2'') (Seq (Class (chr_range CHR ''0'' CHR ''4''))
                                   (Class (chr_range CHR ''0'' CHR ''9''))))
         (Seq (opt (Class (\<lambda>c. c = CHR ''0'' \<or> c = CHR ''1'')))
              (Seq (Class (chr_range CHR ''0'' CHR ''9''))
                   (opt (Class (chr_range CHR ''0'' CHR ''9''))))))"

text \<open>\<^verbatim>\<open>/^(?:octet\.){3}octet$/\<close>\<close>

definition ipRegex :: rexp where
  "ipRegex = Seq (times 3 (Seq octet_rexp (lit CHR ''.''))) octet_rexp"

section \<open>Reconnaissance (server/services/reconnaissance.ts)\<close>

definition validateTarget :: "string \<Rightarrow> bool" where
  "validateTarget target = (regex_test domainRegex target \<or> regex_test ipRegex target)"

datatype error = Error string

record TechInfo =
  t_name :: string
  t_version :: "string option"
  t_category :: string

record DnsRecord =
  d_type :: string
  d_value :: string

text \<open>
  \<^verbatim>\<open>whoisData\<close> is \<^verbatim>\<open>any\<close>: the probe yields \<^verbatim>\<open>null\<close> or the parsed object, an
  association list with one entry per own property. (The order in which JavaScript
  enumerates integer-like keys is not modelled.)
\<close>

datatype whois_value = WhoisNull | WhoisMap "(string \<times> string) list"

record ReconResults =
  r_target :: string
  r_subdomains :: "string list"
  r_openPorts :: "nat list"
  r_technologies :: "TechInfo list"
  r_dnsRecords :: "DnsRecord list"
  r_whoisData :: "whois_value option"
  r_headers :: "(string \<times> string) list"
  r_statusCode :: "nat option"
  r_certificates :: "string option"

record WebInfo =
  w_headers :: "(string \<times> string) list"
  w_statusCode :: nat
  w_technologies :: "TechInfo list"
  w_certificates :: "string option"

text \<open>
  \<^verbatim>\<open>performReconnaissance\<close>: the five probes are awaited with \<^verbatim>\<open>Promise.allSettled\<close>; each
  settled outcome is a parameter, \<open>Inl\<close> a rejection and \<open>Inr\<close> the fulfilled value.
\<close>

definition performReconnaissance ::
    "string \<Rightarrow> error + string list \<Rightarrow> error + nat list \<Rightarrow> error + DnsRecord list
      \<Rightarrow> error + WebInfo \<Rightarrow> error + whois_value \<Rightarrow> error + ReconResults" where
  "performReconnaissance target subdomains openPorts dnsRecords webInfo whoisData =
     (if \<not> validateTarget target then Inl (Error ''Invalid target format'')
      else
        let results0 = \<lparr>r_target = target, r_subdomains = [], r_openPorts = [],
                        r_technologies = [], r_dnsRecords = [], r_whoisData = None,
                        r_headers = [], r_statusCode = None, r_certificates = None\<rparr>;
            results1 = (case subdomains of
                          Inr v \<Rightarrow> results0\<lparr>r_subdomains := v\<rparr>
                        | Inl _ \<Rightarrow> results0);
            results2 = (case openPorts of
                          Inr v \<Rightarrow> results1\<lparr>r_openPorts := v\<rparr>
                        | Inl _ \<Rightarrow> results1);
            results3 = (case dnsRecords of
                          Inr v \<Rightarrow> results2\<lparr>r_dnsRecords := v\<rparr>
                        | Inl _ \<Rightarrow> results2);
            results4 = (case webInfo of
                          Inr v \<Rightarrow> results3\<lparr>r_headers := w_headers v,
                                              r_statusCode := Some (w_statusCode v),
                                              r_technologies := w_technologies v,
                                              r_certificates := w_certificates v\<rparr>
                        | Inl _ \<Rightarrow> results3);
            results5 = (case whoisData of
                          Inr v \<Rightarrow> results4\<lparr>r_whoisData := Some v\<rparr>
                        | Inl _ \<Rightarrow> results4)
        in Inr results5)"

subsection \<open>Technology detection\<close>

text \<open>\<^verbatim>\<open>\s\<close> and the white space of \<^verbatim>\<open>trim\<close>, below 256: 9-13, 32 and 160.\<close>

definition is_space :: "char \<Rightarrow> bool" where
  "is_space c = (let n = (of_char c :: nat) in (9 \<le> n \<and> n \<le> 13) \<or> n = 32 \<or> n = 160)"

text \<open>
  \<^verbatim>\<open>s.match(/lit([^\s]+)/)?.[1]\<close> for a literal prefix \<open>p\<close>: the leftmost place where \<open>p\<close>
  is followed by a code unit that is not white space; the group is the longest such run.
\<close>

fun match_version :: "string \<Rightarrow> string \<Rightarrow> string option" where
  "match_version p [] = None"
| "match_version p (c # cs) =
     (if prefix p (c # cs)
         \<and> takeWhile (\<lambda>x. \<not> is_space x) (drop (length p) (c # cs)) \<noteq> []
      then Some (takeWhile (\<lambda>x. \<not> is_space x) (drop (length p) (c # cs)))
      else match_version p cs)"

text \<open>
  \<^verbatim>\<open>detectTechnologies\<close> pushes onto one array in three blocks, one per header; each block
  is a function from the array before it to the array after it. A header counts when it
  is present and not the empty string.
\<close>

definition detect_server :: "(string \<times> string) list \<Rightarrow> TechInfo list \<Rightarrow> TechInfo list" where
  "detect_server headers technologies =
     (case map_of headers ''server'' of
        None \<Rightarrow> technologies
      | Some h \<Rightarrow>
          if h = [] then technologies
          else let server = toLowerCase h in
            if str_includes server ''apache'' then
              technologies @ [\<lparr>t_name = ''Apache'',
                 t_version = match_version ''apache/'' server, t_category = ''web_server''\<rparr>]
            else if str_includes server ''nginx'' then
              technologies @ [\<lparr>t_name = ''Nginx'',
                 t_version = match_version ''nginx/'' server, t_category = ''web_server''\<rparr>]
            else if str_includes server ''iis'' then
              technologies @ [\<lparr>t_name = ''IIS'',
                 t_version = match_version ''iis/'' server, t_category = ''web_server''\<rparr>]
            else technologies)"

definition detect_framework :: "(string \<times> string) list \<Rightarrow> TechInfo list \<Rightarrow> TechInfo list" where
  "detect_framework headers technologies =
     (case map_of headers ''x-powered-by'' of
        None \<Rightarrow> technologies
      | Some h \<Rightarrow>
          if h = [] then technologies
          else let poweredBy = toLowerCase h in
            if str_includes poweredBy ''php'' then
              technologies @ [\<lparr>t_name = ''PHP'',
                 t_version = match_version ''php/'' poweredBy, t_category = ''framework''\<rparr>]
            else if str_includes poweredBy ''asp.net'' then
              technologies @ [\<lparr>t_name = ''ASP.NET'',
                 t_version = None, t_category = ''framework''\<rparr>]
            else technologies)"

definition detect_cms :: "(string \<times> string) list \<Rightarrow> TechInfo list \<Rightarrow> TechInfo list" where
  "detect_cms headers technologies =
     (case map_of headers ''x-generator'' of
        None \<Rightarrow> technologies
      | Some h \<Rightarrow>
          if h = [] then technologies
          else let generator = toLowerCase h in
            if str_includes generator ''wordpress'' then
              technologies @ [\<lparr>t_name = ''WordPress'',
                 t_version = None, t_category = ''cms''\<rparr>]
            else if str_includes generator ''drupal'' then
              technologies @ [\<lparr>t_name = ''Drupal'',
                 t_version = None, t_category = ''cms''\<rparr>]
            else technologies)"

definition detectTechnologies :: "(string \<times> string) list \<Rightarrow> TechInfo list" where
  "detectTechnologies headers =
     detect_cms headers (detect_framework headers (detect_server headers []))"

subsection \<open>Registry lookup\<close>

text \<open>\<^verbatim>\<open>s.split(sep)\<close> for a one-unit separator, and \<^verbatim>\<open>parts.join(sep)\<close>.\<close>

fun split_on :: "char \<Rightarrow> string \<Rightarrow> string list" where
  "split_on sep [] = [[]]"
| "split_on sep (c # cs) =
     (if c = sep then [] # split_on sep cs
      else (case split_on sep cs of
              [] \<Rightarrow> [[c]]
            | x # xs \<Rightarrow> (c # x) # xs))"

fun join :: "char \<Rightarrow> string list \<Rightarrow> string" where
  "join sep [] = []"
| "join sep [x] = x"
| "join sep (x # y # ys) = x @ sep # join sep (y # ys)"

definition trim :: "string \<Rightarrow> string" where
  "trim s = rev (dropWhile is_space (rev (dropWhile is_space s)))"

text \<open>
  \<^verbatim>\<open>data[key] = value\<close> on a plain object: an own property is added at the end or, when
  the key is there, overwritten in place. The key \<^verbatim>\<open>__proto__\<close> is the accessor of
  \<^verbatim>\<open>Object.prototype\<close>, which ignores a string, so no property is stored.
\<close>

definition js_set :: "string \<Rightarrow> string \<Rightarrow> (string \<times> string) list \<Rightarrow> (string \<times> string) list" where
  "js_set key v data = (if key = ''__proto__'' then data else AList.update key v data)"

text \<open>The body of the \<^verbatim>\<open>forEach\<close> of \<^verbatim>\<open>parseWhoisData\<close>, on one line.\<close>

definition whois_line :: "(string \<times> string) list \<Rightarrow> string \<Rightarrow> (string \<times> string) list" where
  "whois_line data line =
     (case split_on CHR '':'' line of
        [] \<Rightarrow> data
      | key # valueParts \<Rightarrow>
          if key \<noteq> [] \<and> length valueParts > 0 then
            (let v = trim (join CHR '':'' valueParts)
             in if v \<noteq> [] then js_set (toLowerCase (trim key)) v data else data)
          else data)"

definition parseWhoisData :: "string \<Rightarrow> (string \<times> string) list" where
  "parseWhoisData whoisOutput = foldl whois_line [] (split_on (CHR 0x0A) whoisOutput)"

text \<open>
  \<^verbatim>\<open>getWhoisData\<close>: the outcome of \<^verbatim>\<open>execAsync\<close> is the parameter; a failure is caught
  and \<^verbatim>\<open>null\<close> returned.
\<close>

definition getWhoisData :: "error + string \<Rightarrow> whois_value" where
  "getWhoisData exec_outcome =
     (case exec_outcome of
        Inr stdout \<Rightarrow> WhoisMap (parseWhoisData stdout)
      | Inl _ \<Rightarrow> WhoisNull)"

section \<open>Storage (server/storage.ts)\<close>

text \<open>
  The tables the scan writes, each a list of rows in insertion order with a serial
  counter for the primary key, and the technique ids of the catalog table. A statement
  is rejected when a value does not fit its column as shared/schema.ts declares it: an
  \<^verbatim>\<open>integer\<close> column takes a whole number of 32 bits, and \<^verbatim>\<open>technique_id\<close> of a mapping
  references the catalog. Apart from that the collaborator is taken as reliable, and the
  scan's own row is taken to exist (the scan is started on the id of a row just created).
\<close>

datatype db_error = InvalidInteger | IntegerOutOfRange | ForeignKeyViolation

definition int32 :: "int \<Rightarrow> bool" where
  "int32 k = (- 2147483648 \<le> k \<and> k \<le> 2147483647)"

text \<open>A JavaScript number fits an \<^verbatim>\<open>integer\<close> column: it is whole and within 32 bits.\<close>

definition fits_integer :: "rat \<Rightarrow> db_error + int" where
  "fits_integer x =
     (if x \<noteq> of_int \<lfloor>x\<rfloor> then Inl InvalidInteger
      else if \<not> int32 \<lfloor>x\<rfloor> then Inl IntegerOutOfRange
      else Inr \<lfloor>x\<rfloor>)"

record Scan =
  s_id :: nat
  s_target :: string
  s_scanType :: string
  s_status :: string
  s_progress :: "int option"
  s_riskScore :: "int option"
  s_results :: "ReconResults option"
  s_createdAt :: "nat option"
  s_completedAt :: "nat option"

text \<open>\<^verbatim>\<open>Partial<Scan>\<close>, for the fields \<^verbatim>\<open>performScan\<close> updates: \<open>None\<close> is a key left out.\<close>

record ScanPatch =
  u_status :: "string option"
  u_progress :: "int option"
  u_riskScore :: "int option"
  u_results :: "ReconResults option"
  u_completedAt :: "nat option"

record Subdomain =
  sd_id :: nat
  sd_scanId :: nat
  sd_subdomain :: string
  sd_ipAddress :: "string option"
  sd_status :: string
  sd_technologies :: "string option"

record Technology =
  tc_id :: nat
  tc_scanId :: nat
  tc_name :: string
  tc_version :: "string option"
  tc_category :: string
  tc_confidence :: "int option"

record VulnerabilityMitreMapping =
  mr_id :: nat
  mr_vulnerabilityId :: nat
  mr_techniqueId :: string
  mr_confidence :: int
  mr_reasoning :: "string option"

record Storage =
  scans :: "Scan list"
  vulnerabilities :: "Vulnerability list"
  subdomains :: "Subdomain list"
  technologies :: "Technology list"
  mitreMappings :: "VulnerabilityMitreMapping list"
  mitreAttackTechniques :: "string list"
  currentScanId :: nat
  currentVulnerabilityId :: nat
  currentSubdomainId :: nat
  currentTechnologyId :: nat
  currentMappingId :: nat

definition createScan :: "string \<Rightarrow> string \<Rightarrow> nat \<Rightarrow> Storage \<Rightarrow> Scan \<times> Storage" where
  "createScan target scanType now db =
     (let scan = \<lparr>s_id = currentScanId db, s_target = target, s_scanType = scanType,
                  s_status = ''pending'', s_progress = Some 0, s_riskScore = None,
                  s_results = None, s_createdAt = Some now, s_completedAt = None\<rparr>
      in (scan, db\<lparr>scans := scans db @ [scan], currentScanId := currentScanId db + 1\<rparr>))"

definition getScan :: "nat \<Rightarrow> Storage \<Rightarrow> Scan option" where
  "getScan ident db = find (\<lambda>s. s_id s = ident) (scans db)"

definition apply_patch :: "ScanPatch \<Rightarrow> Scan \<Rightarrow> Scan" where
  "apply_patch updates scan =
     scan\<lparr>s_status := (case u_status updates of Some v \<Rightarrow> v | None \<Rightarrow> s_status scan),
          s_progress := (case u_progress updates of Some v \<Rightarrow> Some v | None \<Rightarrow> s_progress scan),
          s_riskScore := (case u_riskScore updates of Some v \<Rightarrow> Some v | None \<Rightarrow> s_riskScore scan),
          s_results := (case u_results updates of Some v \<Rightarrow> Some v | None \<Rightarrow> s_results scan),
          s_completedAt := (case u_completedAt updates of Some v \<Rightarrow> Some v
                            | None \<Rightarrow> s_completedAt scan)\<rparr>"

text \<open>The storage after an update that the database accepts.\<close>

definition set_scan :: "nat \<Rightarrow> ScanPatch \<Rightarrow> Storage \<Rightarrow> Storage" where
  "set_scan ident updates db =
     db\<lparr>scans := map (\<lambda>s. if s_id s = ident then apply_patch updates s else s) (scans db)\<rparr>"

text \<open>The two \<^verbatim>\<open>integer\<close> columns of a scan, \<^verbatim>\<open>progress\<close> and \<^verbatim>\<open>risk_score\<close>.\<close>

definition patch_accepted :: "ScanPatch \<Rightarrow> bool" where
  "patch_accepted updates =
     ((case u_progress updates of None \<Rightarrow> True | Some p \<Rightarrow> int32 p)
      \<and> (case u_riskScore updates of None \<Rightarrow> True | Some k \<Rightarrow> int32 k))"

definition updateScan :: "nat \<Rightarrow> ScanPatch \<Rightarrow> Storage \<Rightarrow> db_error + Storage" where
  "updateScan ident updates db =
     (if patch_accepted updates then Inr (set_scan ident updates db)
      else Inl IntegerOutOfRange)"

text \<open>The row \<^verbatim>\<open>performScan\<close> inserts for a subdomain, under the serial id \<open>i\<close>.\<close>

definition subdomain_row :: "nat \<Rightarrow> nat \<Rightarrow> string \<Rightarrow> Subdomain" where
  "subdomain_row scanId i subdomain =
     \<lparr>sd_id = i, sd_scanId = scanId, sd_subdomain = subdomain,
      sd_ipAddress = None, sd_status = ''active'', sd_technologies = None\<rparr>"

definition createSubdomain :: "nat \<Rightarrow> string \<Rightarrow> Storage \<Rightarrow> Storage" where
  "createSubdomain scanId subdomain db =
     db\<lparr>subdomains := subdomains db @ [subdomain_row scanId (currentSubdomainId db) subdomain],
        currentSubdomainId := currentSubdomainId db + 1\<rparr>"

text \<open>\<^verbatim>\<open>version: tech.version || null\<close>: an absent or empty version is stored as null.\<close>

definition technology_row :: "nat \<Rightarrow> nat \<Rightarrow> TechInfo \<Rightarrow> Technology" where
  "technology_row scanId i tech =
     \<lparr>tc_id = i, tc_scanId = scanId, tc_name = t_name tech,
      tc_version = (case t_version tech of
                      None \<Rightarrow> None
                    | Some v \<Rightarrow> if v = [] then None else Some v),
      tc_category = t_category tech, tc_confidence = Some 85\<rparr>"

definition createTechnology :: "nat \<Rightarrow> TechInfo \<Rightarrow> Storage \<Rightarrow> Storage" where
  "createTechnology scanId tech db =
     db\<lparr>technologies := technologies db @ [technology_row scanId (currentTechnologyId db) tech],
        currentTechnologyId := currentTechnologyId db + 1\<rparr>"

record VulnFinding =
  f_severity :: string
  f_type :: string
  f_description :: string
  f_cvss :: string
  f_remediation :: string

record VulnerabilityAnalysis =
  va_riskScore :: rat
  va_riskLevel :: string
  va_summary :: string
  va_recommendations :: "string list"
  va_vulnerabilities :: "VulnFinding list"

definition vulnerability_row :: "nat \<Rightarrow> nat \<Rightarrow> VulnFinding \<Rightarrow> Vulnerability" where
  "vulnerability_row scanId i vuln =
     \<lparr>v_id = i, v_scanId = scanId, v_severity = f_severity vuln, v_type = f_type vuln,
      v_description = f_description vuln, v_cvss = Some (f_cvss vuln),
      v_remediation = Some (f_remediation vuln)\<rparr>"

definition createVulnerability :: "nat \<Rightarrow> VulnFinding \<Rightarrow> Storage \<Rightarrow> Storage" where
  "createVulnerability scanId vuln db =
     db\<lparr>vulnerabilities := vulnerabilities db @
            [vulnerability_row scanId (currentVulnerabilityId db) vuln],
        currentVulnerabilityId := currentVulnerabilityId db + 1\<rparr>"

definition getVulnerabilitiesByScan :: "nat \<Rightarrow> Storage \<Rightarrow> Vulnerability list" where
  "getVulnerabilitiesByScan scanId db = filter (\<lambda>v. v_scanId v = scanId) (vulnerabilities db)"

definition mapping_row :: "nat \<Rightarrow> nat \<Rightarrow> MitreAttackMapping \<Rightarrow> VulnerabilityMitreMapping" where
  "mapping_row i vulnId mapping =
     \<lparr>mr_id = i, mr_vulnerabilityId = vulnId, mr_techniqueId = techniqueId mapping,
      mr_confidence = \<lfloor>confidence mapping\<rfloor>, mr_reasoning = Some (reasoning mapping)\<rparr>"

text \<open>
  A mapping the table takes: its confidence fits the \<^verbatim>\<open>integer\<close> column and its technique
  id is in the catalog.
\<close>

definition mapping_ok :: "string list \<Rightarrow> MitreAttackMapping \<Rightarrow> bool" where
  "mapping_ok catalog mapping =
     (confidence mapping = of_int \<lfloor>confidence mapping\<rfloor> \<and> int32 \<lfloor>confidence mapping\<rfloor>
      \<and> techniqueId mapping \<in> set catalog)"

text \<open>
  The insert of a mapping row. A rejected insert stores nothing. (Whether it uses up a
  serial id is the database's affair; the ids of mapping rows are not relied on below.)
\<close>

definition createVulnerabilityMitreMapping ::
    "nat \<Rightarrow> MitreAttackMapping \<Rightarrow> Storage \<Rightarrow> db_error + Storage" where
  "createVulnerabilityMitreMapping vulnId mapping db =
     (case fits_integer (confidence mapping) of
        Inl err \<Rightarrow> Inl err
      | Inr c \<Rightarrow>
          if techniqueId mapping \<notin> set (mitreAttackTechniques db) then Inl ForeignKeyViolation
          else Inr (db\<lparr>mitreMappings := mitreMappings db @
                           [mapping_row (currentMappingId db) vulnId mapping],
                       currentMappingId := currentMappingId db + 1\<rparr>))"

text \<open>What the statement of a mapping row says of a row, its serial id apart.\<close>

definition mapping_fields :: "VulnerabilityMitreMapping \<Rightarrow> nat \<times> string \<times> int \<times> string option" where
  "mapping_fields row =
     (mr_vulnerabilityId row, mr_techniqueId row, mr_confidence row, mr_reasoning row)"

section \<open>Vulnerability inference (server/services/openai.ts)\<close>

text \<open>
  \<^verbatim>\<open>analyzeVulnerabilities\<close>: the provider call and \<^verbatim>\<open>JSON.parse\<close> sit in one \<^verbatim>\<open>try\<close>;
  the \<^verbatim>\<open>catch\<close> throws a fixed error. Parsed content is taken to have the shape of the
  declared interface \<^verbatim>\<open>VulnerabilityAnalysis\<close>.
\<close>

definition analyzeVulnerabilities ::
    "provider_error + VulnerabilityAnalysis \<Rightarrow> error + VulnerabilityAnalysis" where
  "analyzeVulnerabilities response =
     (case response of
        Inr analysis \<Rightarrow> Inr analysis
      | Inl _ \<Rightarrow> Inl (Error ''Failed to analyze vulnerabilities with AI''))"

section \<open>The scan sequencer (server/routes.ts)\<close>

text \<open>The payload of a broadcast: \<open>None\<close> is a key the object literal leaves out.\<close>

record ScanUpdate =
  e_status :: string
  e_progress :: "int option"
  e_message :: "string option"
  e_riskScore :: "rat option"

text \<open>
  What one run of \<^verbatim>\<open>performScan\<close> does to the scan's row and to the broadcaster, in
  program order: \<open>Stored\<close> for a call of \<^verbatim>\<open>storage.updateScan\<close> that the database
  accepted, \<open>Emitted\<close> for a call of \<^verbatim>\<open>broadcast\<close>.
\<close>

datatype effect = Stored nat ScanPatch | Emitted nat ScanUpdate

text \<open>What the environment answers during one scan.\<close>

record Env =
  env_subdomains :: "error + string list"
  env_openPorts :: "error + nat list"
  env_dnsRecords :: "error + DnsRecord list"
  env_webInfo :: "error + WebInfo"
  env_whoisData :: "error + whois_value"
  env_analysis :: "provider_error + VulnerabilityAnalysis"
  env_mitre :: "Vulnerability \<Rightarrow> provider_error + MitrePayload"
  env_dbMessage :: "db_error \<Rightarrow> string"
  env_now :: nat

definition running :: "int \<Rightarrow> string option \<Rightarrow> ScanUpdate" where
  "running p m = \<lparr>e_status = ''running'', e_progress = Some p, e_message = m, e_riskScore = None\<rparr>"

text \<open>\<^verbatim>\<open>reconService.performReconnaissance(target)\<close>, the probes answering as \<open>env\<close> says.\<close>

definition run_recon :: "Env \<Rightarrow> string \<Rightarrow> error + ReconResults" where
  "run_recon env target =
     performReconnaissance target (env_subdomains env) (env_openPorts env)
       (env_dnsRecords env) (env_webInfo env) (env_whoisData env)"

text \<open>
  The error a rejected statement throws: its kind is the model's, its message whatever
  the database driver says.
\<close>

definition db_failure :: "Env \<Rightarrow> db_error \<Rightarrow> error" where
  "db_failure env err = Error (env_dbMessage env err)"

text \<open>
  The \<^verbatim>\<open>catch\<close> branch of \<^verbatim>\<open>performScan\<close>. Should its own update be rejected, the error
  leaves \<^verbatim>\<open>performScan\<close> and nothing is broadcast.
\<close>

definition scan_failed ::
    "Env \<Rightarrow> nat \<Rightarrow> error \<Rightarrow> Storage \<Rightarrow> effect list \<Rightarrow> Storage \<times> effect list" where
  "scan_failed env scanId err db trace =
     (case err of Error message \<Rightarrow>
        (let updates = \<lparr>u_status = Some ''failed'', u_progress = None, u_riskScore = None,
                        u_results = None, u_completedAt = Some (env_now env)\<rparr>
         in case updateScan scanId updates db of
              Inl _ \<Rightarrow> (db, trace)
            | Inr db' \<Rightarrow>
                (db',
                 trace @ [Stored scanId updates,
                          Emitted scanId \<lparr>e_status = ''failed'', e_progress = None,
                                          e_message = Some (''Scan failed: '' @ message),
                                          e_riskScore = None\<rparr>])))"

text \<open>
  The inner loop over the mappings of one vulnerability, inside its \<^verbatim>\<open>try\<close>: the first
  rejected insert throws, the \<^verbatim>\<open>catch\<close> logs it, and the mappings after it are skipped.
  The rows inserted before it stay.
\<close>

fun store_mappings :: "nat \<Rightarrow> MitreAttackMapping list \<Rightarrow> Storage \<Rightarrow> Storage" where
  "store_mappings vulnId [] db = db"
| "store_mappings vulnId (mapping # rest) db =
     (case createVulnerabilityMitreMapping vulnId mapping db of
        Inl _ \<Rightarrow> db
      | Inr db' \<Rightarrow> store_mappings vulnId rest db')"

text \<open>The body of the loop over the stored vulnerabilities.\<close>

definition map_vulnerability :: "Env \<Rightarrow> Storage \<Rightarrow> Vulnerability \<Rightarrow> Storage" where
  "map_vulnerability env db vulnerability =
     (let mitreAnalysis = analyzeVulnerabilityForMitre (env_mitre env vulnerability) vulnerability
      in store_mappings (v_id vulnerability) (mappings mitreAnalysis) db)"

definition performScan ::
    "Env \<Rightarrow> nat \<Rightarrow> string \<Rightarrow> string \<Rightarrow> Storage \<Rightarrow> Storage \<times> effect list" where
  "performScan env scanId target scanType db =
     (let start = \<lparr>u_status = Some ''running'', u_progress = Some 0, u_riskScore = None,
                   u_results = None, u_completedAt = None\<rparr>
      in case updateScan scanId start db of
           Inl err \<Rightarrow> scan_failed env scanId (db_failure env err) db []
         | Inr db1 \<Rightarrow>
      (let trace1 = [Stored scanId start,
                     Emitted scanId (running 0 None),
                     Emitted scanId (running 25 (Some ''Starting reconnaissance...''))]
      in case run_recon env target of
           Inl err \<Rightarrow> scan_failed env scanId err db1 trace1
         | Inr reconResults \<Rightarrow>
             (let trace2 = trace1 @ [Emitted scanId (running 50 (Some ''Analyzing subdomains...''))];
                  db2 = foldl (\<lambda>d subdomain. createSubdomain scanId subdomain d)
                          db1 (r_subdomains reconResults);
                  trace3 = trace2 @ [Emitted scanId (running 65 (Some ''Identifying technologies...''))];
                  db3 = foldl (\<lambda>d tech. createTechnology scanId tech d)
                          db2 (r_technologies reconResults);
                  trace4 = trace3 @ [Emitted scanId
                                   (running 80 (Some ''Analyzing vulnerabilities with AI...''))]
              in case analyzeVulnerabilities (env_analysis env) of
                   Inl err \<Rightarrow> scan_failed env scanId err db3 trace4
                 | Inr vulnerabilityAnalysis \<Rightarrow>
                     (let db4 = foldl (\<lambda>d vuln. createVulnerability scanId vuln d)
                                  db3 (va_vulnerabilities vulnerabilityAnalysis);
                          trace5 = trace4 @ [Emitted scanId
                                   (running 90 (Some ''Mapping to MITRE ATT&CK framework...''))];
                          db5 = foldl (map_vulnerability env) db4 (getVulnerabilitiesByScan scanId db4);
                          final = \<lparr>u_status = Some ''completed'', u_progress = Some 100,
                                   u_riskScore = Some (round (va_riskScore vulnerabilityAnalysis)),
                                   u_results = Some reconResults,
                                   u_completedAt = Some (env_now env)\<rparr>
                      in case updateScan scanId final db5 of
                           Inl err \<Rightarrow> scan_failed env scanId (db_failure env err) db5 trace5
                         | Inr db6 \<Rightarrow>
                             (db6,
                              trace5 @ [Stored scanId final,
                                  Emitted scanId
                                    \<lparr>e_status = ''completed'', e_progress = Some 100,
                                     e_message = Some ''Scan completed successfully'',
                                     e_riskScore = Some (va_riskScore vulnerabilityAnalysis)\<rparr>])))))"

subsection \<open>Reading a trace\<close>

text \<open>The payloads of the broadcasts of a trace, in order.\<close>

fun emitted :: "effect list \<Rightarrow> ScanUpdate list" where
  "emitted [] = []"
| "emitted (Stored i updates # es) = emitted es"
| "emitted (Emitted i u # es) = u # emitted es"

text \<open>The progress values the events carry; an event without the key carries none.\<close>

definition progress_values :: "ScanUpdate list \<Rightarrow> int list" where
  "progress_values evs = List.map_filter e_progress evs"

text \<open>
  The reading of the specification under which every stage checkpoint is stored before
  it is broadcast: along the trace, each event carries the progress the row holds at
  that moment. The first argument is the progress the row holds before the trace.
\<close>

fun events_carry_stored_progress :: "int option \<Rightarrow> effect list \<Rightarrow> bool" where
  "events_carry_stored_progress p [] = True"
| "events_carry_stored_progress p (Stored i updates # es) =
     events_carry_stored_progress (case u_progress updates of Some q \<Rightarrow> Some q | None \<Rightarrow> p) es"
| "events_carry_stored_progress p (Emitted i u # es) =
     (e_progress u = p \<and> events_carry_stored_progress p es)"

text \<open>The status and progress each accepted update of the trace writes, in order.\<close>

fun stored_writes :: "effect list \<Rightarrow> (string option \<times> int option) list" where
  "stored_writes [] = []"
| "stored_writes (Stored i updates # es) = (u_status updates, u_progress updates) # stored_writes es"
| "stored_writes (Emitted i u # es) = stored_writes es"

subsection \<open>The submission boundary\<close>

text \<open>
  The body of \<^verbatim>\<open>POST /api/scans\<close>: \<open>None\<close> is a key that is missing or not a string.
  \<^verbatim>\<open>scanRequestSchema\<close> asks each of the two strings for one code unit at least.
\<close>

record ScanRequest =
  b_target :: "string option"
  b_scanType :: "string option"

definition scanRequestSchema_parse :: "ScanRequest \<Rightarrow> string + (string \<times> string)" where
  "scanRequestSchema_parse body =
     (case (b_target body, b_scanType body) of
        (Some target, Some scanType) \<Rightarrow>
          if length target < 1 then Inl ''Target is required''
          else if length scanType < 1 then Inl ''Scan type is required''
          else Inr (target, scanType)
      | (None, _) \<Rightarrow> Inl ''Required''
      | (_, None) \<Rightarrow> Inl ''Required'')"

datatype response = Json Scan | Status400 string

text \<open>
  The handler answers with the created row and then starts \<^verbatim>\<open>performScan\<close> without
  awaiting it: the third component is the arguments of that background call, if any.
\<close>

definition post_scans ::
    "nat \<Rightarrow> ScanRequest \<Rightarrow> Storage \<Rightarrow> response \<times> Storage \<times> (nat \<times> string \<times> string) option" where
  "post_scans now body db =
     (case scanRequestSchema_parse body of
        Inl _ \<Rightarrow> (Status400 ''Invalid scan data'', db, None)
      | Inr (target, scanType) \<Rightarrow>
          (let (scan, db') = createScan target scanType now db
           in (Json scan, db', Some (s_id scan, s_target scan, s_scanType scan))))"

subsection \<open>The progress broadcaster\<close>

datatype readyState = CONNECTING | OPEN | CLOSING | CLOSED

record ScanMessage =
  msg_type :: string
  msg_scanId :: nat
  msg_data :: ScanUpdate

text \<open>A socket: its state, and the messages \<^verbatim>\<open>send\<close> was called with, oldest first.\<close>

record WebSocket =
  ws_readyState :: readyState
  ws_sent :: "ScanMessage list"

text \<open>
  \<^verbatim>\<open>clients\<close> is a \<^verbatim>\<open>Map<string, WebSocket>\<close>: \<^verbatim>\<open>set\<close> on connection, \<^verbatim>\<open>delete\<close> in the
  socket's \<^verbatim>\<open>close\<close> handler, \<^verbatim>\<open>forEach\<close> in \<^verbatim>\<open>broadcastUpdate\<close>.
\<close>

definition on_connection ::
    "string \<Rightarrow> WebSocket \<Rightarrow> (string \<times> WebSocket) list \<Rightarrow> (string \<times> WebSocket) list" where
  "on_connection clientId ws clients = AList.update clientId ws clients"

definition on_close :: "string \<Rightarrow> (string \<times> WebSocket) list \<Rightarrow> (string \<times> WebSocket) list" where
  "on_close clientId clients = AList.delete clientId clients"

definition broadcastUpdate ::
    "nat \<Rightarrow> ScanUpdate \<Rightarrow> (string \<times> WebSocket) list \<Rightarrow> (string \<times> WebSocket) list" where
  "broadcastUpdate scanId update clients =
     (let message = \<lparr>msg_type = ''scan_update'', msg_scanId = scanId, msg_data = update\<rparr>
      in map (\<lambda>(clientId, client).
                if ws_readyState client = OPEN
                then (clientId, client\<lparr>ws_sent := ws_sent client @ [message]\<rparr>)
                else (clientId, client))
           clients)"

section \<open>Example inputs\<close>

definition example_vulnerability :: Vulnerability where
  "example_vulnerability =
     \<lparr>v_id = 7, v_scanId = 1, v_severity = ''high'', v_type = ''SQL Injection in Login Form'',
      v_description = ''login form'', v_cvss = Some ''9.1'', v_remediation = None\<rparr>"

definition example_vulnerability2 :: Vulnerability where
  "example_vulnerability2 =
     \<lparr>v_id = 8, v_scanId = 2, v_severity = ''high'', v_type = ''SQL Injection in Login Form'',
      v_description = ''another description'', v_cvss = None, v_remediation = Some ''patch''\<rparr>"

definition example_webinfo :: WebInfo where
  "example_webinfo =
     \<lparr>w_headers = [(''server'', ''nginx/1.18.0'')], w_statusCode = 200,
      w_technologies = [\<lparr>t_name = ''Nginx'', t_version = Some ''1.18.0'', t_category = ''web_server''\<rparr>],
      w_certificates = Some ''CN=a.example.com''\<rparr>"

definition example_headers :: "(string \<times> string) list" where
  "example_headers =
     [(''server'', ''Apache/2.4.41 (Ubuntu)''), (''x-powered-by'', ''PHP/7.4.3''),
      (''x-generator'', ''Drupal 9 (https://www.drupal.org)'')]"

definition example_whois_output :: string where
  "example_whois_output =
     ''Domain Name: EXAMPLE.COM'' @ [CHR 0x0A] @
     ''no colon on this line'' @ [CHR 0x0A] @
     ''Registrar:   '' @ [CHR 0x0A] @
     ''  Updated Date : 2020-01-01T00:00:00Z '' @ [CHR 0x0A]"

text \<open>The technique ids of \<^verbatim>\<open>MITRE_ATTACK_TECHNIQUES\<close>, which start-up copies into the catalog.\<close>

definition MITRE_ATTACK_TECHNIQUES :: "string list" where
  "MITRE_ATTACK_TECHNIQUES =
     [''T1190'', ''T1189'', ''T1055'', ''T1021'', ''T1083'', ''T1046'', ''T1071'', ''T1059'',
      ''T1543'', ''T1068'']"

definition empty_storage :: Storage where
  "empty_storage =
     \<lparr>scans = [], vulnerabilities = [], subdomains = [], technologies = [], mitreMappings = [],
      mitreAttackTechniques = MITRE_ATTACK_TECHNIQUES,
      currentScanId = 1, currentVulnerabilityId = 1, currentSubdomainId = 1,
      currentTechnologyId = 1, currentMappingId = 1\<rparr>"

definition example_scan :: Scan where
  "example_scan =
     \<lparr>s_id = 1, s_target = ''a.example.com'', s_scanType = ''comprehensive'',
      s_status = ''pending'', s_progress = Some 0, s_riskScore = None, s_results = None,
      s_createdAt = Some 1000, s_completedAt = None\<rparr>"

definition example_storage :: Storage where
  "example_storage = empty_storage\<lparr>scans := [example_scan], currentScanId := 2\<rparr>"

definition example_analysis :: VulnerabilityAnalysis where
  "example_analysis =
     \<lparr>va_riskScore = 7, va_riskLevel = ''high'', va_summary = ''one finding'',
      va_recommendations = [''patch the login form''],
      va_vulnerabilities =
        [\<lparr>f_severity = ''high'', f_type = ''SQL Injection in Login Form'',
          f_description = ''login form'', f_cvss = ''9.1'', f_remediation = ''parameterise''\<rparr>]\<rparr>"

definition example_env :: Env where
  "example_env =
     \<lparr>env_subdomains = Inr [''www.a.example.com''], env_openPorts = Inr [80, 443],
      env_dnsRecords = Inr [\<lparr>d_type = ''A'', d_value = ''192.0.2.1''\<rparr>],
      env_webInfo = Inr example_webinfo, env_whoisData = Inr WhoisNull,
      env_analysis = Inr example_analysis, env_mitre = (\<lambda>v. Inl Timeout),
      env_dbMessage = (\<lambda>e. ''rejected by the database''), env_now = 2000\<rparr>"

text \<open>
  An environment whose technique provider answers with a mapping outside the catalog
  between two mappings inside it, and one whose risk score does not fit 32 bits.
\<close>

definition example_payload :: MitrePayload where
  "example_payload =
     \<lparr>p_mappings =
        [\<lparr>techniqueId = ''T1190'', confidence = 90, reasoning = ''public-facing''\<rparr>,
         \<lparr>techniqueId = ''T9999'', confidence = 80, reasoning = ''not in the catalog''\<rparr>,
         \<lparr>techniqueId = ''T1068'', confidence = 70, reasoning = ''skipped''\<rparr>],
      p_attackPath = [''T1190'', ''T9999'', ''T1068''],
      p_riskAssessment = \<lparr>likelihood = 50, impact = 50, overall = 50\<rparr>\<rparr>"

definition example_env_rejecting :: Env where
  "example_env_rejecting = example_env\<lparr>env_mitre := (\<lambda>v. Inr example_payload)\<rparr>"

definition example_env_overflow :: Env where
  "example_env_overflow =
     example_env\<lparr>env_analysis := Inr (example_analysis\<lparr>va_riskScore := 3000000000\<rparr>)\<rparr>"

definition example_env_failing :: Env where
  "example_env_failing = example_env\<lparr>env_analysis := Inl (InvalidOutput ''not json'')\<rparr>"

definition example_recon :: ReconResults where
  "example_recon =
     \<lparr>r_target = ''a.example.com'', r_subdomains = [''www.a.example.com''],
      r_openPorts = [80, 443],
      r_technologies = [\<lparr>t_name = ''Nginx'', t_version = Some ''1.18.0'', t_category = ''web_server''\<rparr>],
      r_dnsRecords = [\<lparr>d_type = ''A'', d_value = ''192.0.2.1''\<rparr>],
      r_whoisData = Some WhoisNull, r_headers = [(''server'', ''nginx/1.18.0'')],
      r_statusCode = Some 200, r_certificates = Some ''CN=a.example.com''\<rparr>"

definition example_clients :: "(string \<times> WebSocket) list" where
  "example_clients =
     [(''k3j9x0a1b'', \<lparr>ws_readyState = CLOSED, ws_sent = []\<rparr>),
      (''z8w7v6u5t'', \<lparr>ws_readyState = OPEN, ws_sent = []\<rparr>)]"

definition invalid_request :: ScanRequest where
  "invalid_request = \<lparr>b_target = Some ''exa mple.com'', b_scanType = Some ''comprehensive''\<rparr>"

definition octet_request :: ScanRequest where
  "octet_request = \<lparr>b_target = Some ''256.1.1.1'', b_scanType = Some ''comprehensive''\<rparr>"

section \<open>The matcher decides the language\<close>

lemma nullable_lang: "nullable r \<longleftrightarrow> [] \<in> lang r"
  by (induction r) (auto intro: star.star_empty)

lemma star_head:
  "c # s \<in> star A \<longleftrightarrow> (\<exists>u v. s = u @ v \<and> c # u \<in> A \<and> v \<in> star A)"
proof
  assume "c # s \<in> star A"
  then show "\<exists>u v. s = u @ v \<and> c # u \<in> A \<and> v \<in> star A"
  proof (induction "c # s" rule: star.induct)
    case (star_more u v)
    show ?case
    proof (cases u)
      case Nil
      with star_more show ?thesis by simp
    next
      case (Cons a u')
      with star_more show ?thesis by auto
    qed
  qed
next
  assume "\<exists>u v. s = u @ v \<and> c # u \<in> A \<and> v \<in> star A"
  then obtain u v where "s = u @ v" "c # u \<in> A" "v \<in> star A"
    by blast
  then show "c # s \<in> star A"
    using star.star_more [of "c # u" A v] by simp
qed

lemma seq_head:
  "c # s \<in> {u @ v | u v. u \<in> A \<and> v \<in> B} \<longleftrightarrow>
     (\<exists>u v. s = u @ v \<and> c # u \<in> A \<and> v \<in> B) \<or> ([] \<in> A \<and> c # s \<in> B)"
  by (auto simp add: Cons_eq_append_conv)

lemma deriv_lang: "s \<in> lang (deriv c r) \<longleftrightarrow> c # s \<in> lang r"
proof (induction r arbitrary: s)
  case (Seq r1 r2)
  have "c # s \<in> lang (Seq r1 r2) \<longleftrightarrow>
      (\<exists>u v. s = u @ v \<and> c # u \<in> lang r1 \<and> v \<in> lang r2) \<or> ([] \<in> lang r1 \<and> c # s \<in> lang r2)"
    using seq_head [of c s "lang r1" "lang r2"] by simp
  then show ?case
    using Seq by (auto simp add: nullable_lang)
next
  case (Star r)
  then show ?case
    by (auto simp add: star_head)
qed auto

lemma regex_test_lang: "regex_test r s \<longleftrightarrow> s \<in> lang r"
  by (induction s arbitrary: r) (simp_all add: nullable_lang deriv_lang)

section \<open>The fallback technique mapping\<close>

text \<open>
  C6. When the inference provider fails, the mapper lower-cases the vulnerability's type
  and applies three rules in order: "sql injection", "xss" or "rce" give T1190 at
  confidence 85; "privilege escalation" gives T1068 at 80; "service" or "port" give T1021
  at 70. Every rule that matches adds its mapping and its technique id to the attack
  path, in rule order. The risk assessment comes from the lower-cased severity through
  the table critical 95, high 80, medium 60, low 30, otherwise 50, with likelihood
  0.8 times the score, impact the score and overall 0.9 times the score.
\<close>

theorem fallback_mapping_rules:
  "analyzeVulnerabilityForMitre (Inl e) v =
     (let t = toLowerCase (v_type v); s = getSeverityScore (v_severity v)
      in \<lparr>vulnerabilityId = v_id v,
          mappings =
            (if str_includes t ''sql injection'' \<or> str_includes t ''xss'' \<or> str_includes t ''rce''
             then [\<lparr>techniqueId = ''T1190'', confidence = 85,
                    reasoning = ''Web application vulnerability allowing exploitation of public-facing application''\<rparr>]
             else []) @
            (if str_includes t ''privilege escalation''
             then [\<lparr>techniqueId = ''T1068'', confidence = 80,
                    reasoning = ''Vulnerability allows privilege escalation''\<rparr>]
             else []) @
            (if str_includes t ''service'' \<or> str_includes t ''port''
             then [\<lparr>techniqueId = ''T1021'', confidence = 70,
                    reasoning = ''Remote service vulnerability''\<rparr>]
             else []),
          attackPath =
            (if str_includes t ''sql injection'' \<or> str_includes t ''xss'' \<or> str_includes t ''rce''
             then [''T1190''] else []) @
            (if str_includes t ''privilege escalation'' then [''T1068''] else []) @
            (if str_includes t ''service'' \<or> str_includes t ''port'' then [''T1021''] else []),
          riskAssessment = \<lparr>likelihood = (8 / 10) * s, impact = s, overall = (9 / 10) * s\<rparr>\<rparr>)
   \<and> getSeverityScore sev =
       (if toLowerCase sev = ''critical'' then 95
        else if toLowerCase sev = ''high'' then 80
        else if toLowerCase sev = ''medium'' then 60
        else if toLowerCase sev = ''low'' then 30
        else 50)"
  by (simp add: analyzeVulnerabilityForMitre_def getFallbackMapping_def getSeverityScore_def Let_def)

theorem fallback_mapping_rules_witness:
  "analyzeVulnerabilityForMitre (Inl Timeout) example_vulnerability =
     \<lparr>vulnerabilityId = 7,
      mappings = [\<lparr>techniqueId = ''T1190'', confidence = 85,
                   reasoning = ''Web application vulnerability allowing exploitation of public-facing application''\<rparr>],
      attackPath = [''T1190''],
      riskAssessment = \<lparr>likelihood = 64, impact = 80, overall = 72\<rparr>\<rparr>
   \<and> getSeverityScore ''Critical'' = 95"
proof -
  note r = fallback_mapping_rules [of Timeout example_vulnerability "''Critical''"]
  have a: "toLowerCase (v_type example_vulnerability) = ''sql injection in login form''"
    by code_simp
  have b: "getSeverityScore (v_severity example_vulnerability) = 80"
    by code_simp
  have c: "toLowerCase ''Critical'' = ''critical''"
    by code_simp
  have d: "v_id example_vulnerability = 7"
    by (simp add: example_vulnerability_def)
  show ?thesis
    using r unfolding a b c d Let_def by simp
qed

text \<open>
  C9. With the provider failing, the mapper's result does not depend on how the provider
  failed, and its mappings, attack path and risk assessment depend on the vulnerability
  through its type and severity only: two runs on the same content give the same
  fallback mapping set.
\<close>

theorem fallback_is_function_of_type_and_severity:
  assumes "v_type v1 = v_type v2" and "v_severity v1 = v_severity v2"
  shows "mappings (analyzeVulnerabilityForMitre (Inl e1) v1)
           = mappings (analyzeVulnerabilityForMitre (Inl e2) v2)
       \<and> attackPath (analyzeVulnerabilityForMitre (Inl e1) v1)
           = attackPath (analyzeVulnerabilityForMitre (Inl e2) v2)
       \<and> riskAssessment (analyzeVulnerabilityForMitre (Inl e1) v1)
           = riskAssessment (analyzeVulnerabilityForMitre (Inl e2) v2)
       \<and> analyzeVulnerabilityForMitre (Inl e1) v1 = analyzeVulnerabilityForMitre (Inl e2) v1"
  using assms
  by (simp add: analyzeVulnerabilityForMitre_def getFallbackMapping_def Let_def)

theorem fallback_is_function_of_type_and_severity_witness:
  "v_type example_vulnerability = v_type example_vulnerability2
   \<and> v_severity example_vulnerability = v_severity example_vulnerability2
   \<and> example_vulnerability \<noteq> example_vulnerability2
   \<and> mappings (analyzeVulnerabilityForMitre (Inl Timeout) example_vulnerability)
       = mappings (analyzeVulnerabilityForMitre (Inl (CallError ''503'')) example_vulnerability2)
   \<and> attackPath (analyzeVulnerabilityForMitre (Inl Timeout) example_vulnerability)
       = attackPath (analyzeVulnerabilityForMitre (Inl (CallError ''503'')) example_vulnerability2)
   \<and> riskAssessment (analyzeVulnerabilityForMitre (Inl Timeout) example_vulnerability)
       = riskAssessment (analyzeVulnerabilityForMitre (Inl (CallError ''503'')) example_vulnerability2)
   \<and> analyzeVulnerabilityForMitre (Inl Timeout) example_vulnerability
       = analyzeVulnerabilityForMitre (Inl (CallError ''503'')) example_vulnerability"
proof -
  have t: "v_type example_vulnerability = v_type example_vulnerability2"
    by (simp add: example_vulnerability_def example_vulnerability2_def)
  have s: "v_severity example_vulnerability = v_severity example_vulnerability2"
    by (simp add: example_vulnerability_def example_vulnerability2_def)
  have n: "example_vulnerability \<noteq> example_vulnerability2"
    by (simp add: example_vulnerability_def example_vulnerability2_def)
  show ?thesis
    using fallback_is_function_of_type_and_severity [OF t s, of Timeout "CallError ''503''"] t s n
    by blast
qed

section \<open>The fan-out coordinator\<close>

text \<open>
  C2. For a target that passes \<^verbatim>\<open>validateTarget\<close> and any outcome of each of the five
  probes, \<^verbatim>\<open>performReconnaissance\<close> returns an aggregate (it does not fail) in which each
  field is the value of its probe when the probe was fulfilled, and the empty or absent
  default when the probe was rejected.
\<close>

theorem recon_aggregate:
  assumes "validateTarget target"
  shows "performReconnaissance target subs ports dns web whois =
     Inr \<lparr>r_target = target,
          r_subdomains = (case subs of Inr v \<Rightarrow> v | Inl _ \<Rightarrow> []),
          r_openPorts = (case ports of Inr v \<Rightarrow> v | Inl _ \<Rightarrow> []),
          r_technologies = (case web of Inr w \<Rightarrow> w_technologies w | Inl _ \<Rightarrow> []),
          r_dnsRecords = (case dns of Inr v \<Rightarrow> v | Inl _ \<Rightarrow> []),
          r_whoisData = (case whois of Inr v \<Rightarrow> Some v | Inl _ \<Rightarrow> None),
          r_headers = (case web of Inr w \<Rightarrow> w_headers w | Inl _ \<Rightarrow> []),
          r_statusCode = (case web of Inr w \<Rightarrow> Some (w_statusCode w) | Inl _ \<Rightarrow> None),
          r_certificates = (case web of Inr w \<Rightarrow> w_certificates w | Inl _ \<Rightarrow> None)\<rparr>"
  using assms
  by (simp add: performReconnaissance_def Let_def split: sum.splits)

theorem recon_aggregate_witness:
  "validateTarget ''a.example.com''
   \<and> performReconnaissance ''a.example.com'' (Inr [''www.a.example.com''])
        (Inl (Error ''socket'')) (Inr [\<lparr>d_type = ''A'', d_value = ''192.0.2.1''\<rparr>])
        (Inl (Error ''timeout'')) (Inr WhoisNull) =
       Inr \<lparr>r_target = ''a.example.com'', r_subdomains = [''www.a.example.com''],
            r_openPorts = [], r_technologies = [],
            r_dnsRecords = [\<lparr>d_type = ''A'', d_value = ''192.0.2.1''\<rparr>],
            r_whoisData = Some WhoisNull, r_headers = [], r_statusCode = None,
            r_certificates = None\<rparr>"
proof -
  have v: "validateTarget ''a.example.com''"
    by code_simp
  show ?thesis
    using v recon_aggregate [OF v, of "Inr [''www.a.example.com'']" "Inl (Error ''socket'')"
        "Inr [\<lparr>d_type = ''A'', d_value = ''192.0.2.1''\<rparr>]" "Inl (Error ''timeout'')"
        "Inr WhoisNull"]
    by simp
qed

section \<open>The web fingerprint\<close>

lemma lower_char_idem: "lower_char (lower_char c) = lower_char c"
  by (auto simp add: lower_char_def Let_def)

lemma toLowerCase_idem: "toLowerCase (toLowerCase s) = toLowerCase s"
  by (simp add: toLowerCase_def lower_char_idem)

lemma toLowerCase_Nil_iff: "toLowerCase s = [] \<longleftrightarrow> s = []"
  by (simp add: toLowerCase_def)

lemma map_of_lowered:
  "map_of (map (\<lambda>(k, v). (k, toLowerCase v)) h) k = map_option toLowerCase (map_of h k)"
  by (induction h) auto

lemma map_of_only:
  "map_of (filter (\<lambda>(k, v). k = a) h) b = (if a = b then map_of h b else None)"
  by (induction h) auto

lemma detect_server_append: "detect_server h acc = acc @ detect_server h []"
  by (simp add: detect_server_def Let_def split: option.splits)

lemma detect_framework_append: "detect_framework h acc = acc @ detect_framework h []"
  by (simp add: detect_framework_def Let_def split: option.splits)

lemma detect_cms_append: "detect_cms h acc = acc @ detect_cms h []"
  by (simp add: detect_cms_def Let_def split: option.splits)

lemma detect_split:
  "detectTechnologies h = detect_server h [] @ detect_framework h [] @ detect_cms h []"
  unfolding detectTechnologies_def
  by (subst detect_cms_append, subst detect_framework_append) simp

lemma detect_server_length: "length (detect_server h []) \<le> 1"
  by (simp add: detect_server_def Let_def split: option.splits)

lemma detect_framework_length: "length (detect_framework h []) \<le> 1"
  by (simp add: detect_framework_def Let_def split: option.splits)

lemma detect_cms_length: "length (detect_cms h []) \<le> 1"
  by (simp add: detect_cms_def Let_def split: option.splits)

lemma detect_server_category: "t \<in> set (detect_server h []) \<Longrightarrow> t_category t = ''web_server''"
  by (auto simp add: detect_server_def Let_def split: option.splits if_splits)

lemma detect_framework_category: "t \<in> set (detect_framework h []) \<Longrightarrow> t_category t = ''framework''"
  by (auto simp add: detect_framework_def Let_def split: option.splits if_splits)

lemma detect_cms_category: "t \<in> set (detect_cms h []) \<Longrightarrow> t_category t = ''cms''"
  by (auto simp add: detect_cms_def Let_def split: option.splits if_splits)

lemma detect_server_lowered:
  "detect_server (map (\<lambda>(k, v). (k, toLowerCase v)) h) acc = detect_server h acc"
  by (simp add: detect_server_def map_of_lowered toLowerCase_idem toLowerCase_Nil_iff
      split: option.splits)

lemma detect_framework_lowered:
  "detect_framework (map (\<lambda>(k, v). (k, toLowerCase v)) h) acc = detect_framework h acc"
  by (simp add: detect_framework_def map_of_lowered toLowerCase_idem toLowerCase_Nil_iff
      split: option.splits)

lemma detect_cms_lowered:
  "detect_cms (map (\<lambda>(k, v). (k, toLowerCase v)) h) acc = detect_cms h acc"
  by (simp add: detect_cms_def map_of_lowered toLowerCase_idem toLowerCase_Nil_iff
      split: option.splits)

text \<open>
  C10. The technology detector emits at most one entry per inspected header: at most one
  web server from \<^verbatim>\<open>server\<close>, at most one framework from \<^verbatim>\<open>x-powered-by\<close>, at most one
  CMS from \<^verbatim>\<open>x-generator\<close>, so at most three in all; and the signatures are matched on
  the lower-cased header value, so lower-casing every value beforehand changes nothing.
\<close>

theorem technologies_per_header:
  "length (detectTechnologies h) \<le> 3
   \<and> detectTechnologies h = detect_server h [] @ detect_framework h [] @ detect_cms h []
   \<and> length (detect_server h []) \<le> 1
   \<and> length (detect_framework h []) \<le> 1
   \<and> length (detect_cms h []) \<le> 1
   \<and> length (filter (\<lambda>t. t_category t = ''web_server'') (detectTechnologies h)) \<le> 1
   \<and> length (filter (\<lambda>t. t_category t = ''framework'') (detectTechnologies h)) \<le> 1
   \<and> length (filter (\<lambda>t. t_category t = ''cms'') (detectTechnologies h)) \<le> 1
   \<and> filter (\<lambda>t. t_category t = ''web_server'') (detectTechnologies h) = detect_server h []
   \<and> filter (\<lambda>t. t_category t = ''framework'') (detectTechnologies h) = detect_framework h []
   \<and> filter (\<lambda>t. t_category t = ''cms'') (detectTechnologies h) = detect_cms h []
   \<and> detectTechnologies (map (\<lambda>(k, v). (k, toLowerCase v)) h) = detectTechnologies h"
proof -
  have len: "length (detectTechnologies h) \<le> 3"
    using detect_server_length [of h] detect_framework_length [of h] detect_cms_length [of h]
    by (simp add: detect_split)
  have ws: "filter (\<lambda>t. t_category t = ''web_server'') (detectTechnologies h) = detect_server h []"
    using detect_server_category [of _ h] detect_framework_category [of _ h]
      detect_cms_category [of _ h]
    by (auto simp add: detect_split filter_id_conv filter_empty_conv)
  have fw: "filter (\<lambda>t. t_category t = ''framework'') (detectTechnologies h) = detect_framework h []"
    using detect_server_category [of _ h] detect_framework_category [of _ h]
      detect_cms_category [of _ h]
    by (auto simp add: detect_split filter_id_conv filter_empty_conv)
  have cms: "filter (\<lambda>t. t_category t = ''cms'') (detectTechnologies h) = detect_cms h []"
    using detect_server_category [of _ h] detect_framework_category [of _ h]
      detect_cms_category [of _ h]
    by (auto simp add: detect_split filter_id_conv filter_empty_conv)
  have low: "detectTechnologies (map (\<lambda>(k, v). (k, toLowerCase v)) h) = detectTechnologies h"
    by (simp add: detectTechnologies_def detect_server_lowered detect_framework_lowered
        detect_cms_lowered)
  show ?thesis
    using len ws fw cms low detect_split [of h] detect_server_length [of h]
      detect_framework_length [of h] detect_cms_length [of h]
    by simp
qed

theorem technologies_per_header_witness:
  "length (detectTechnologies example_headers) \<le> 3
   \<and> detectTechnologies example_headers =
       [\<lparr>t_name = ''Apache'', t_version = Some ''2.4.41'', t_category = ''web_server''\<rparr>,
        \<lparr>t_name = ''PHP'', t_version = Some ''7.4.3'', t_category = ''framework''\<rparr>,
        \<lparr>t_name = ''Drupal'', t_version = None, t_category = ''cms''\<rparr>]
   \<and> filter (\<lambda>t. t_category t = ''web_server'') (detectTechnologies example_headers) =
       [\<lparr>t_name = ''Apache'', t_version = Some ''2.4.41'', t_category = ''web_server''\<rparr>]"
proof -
  have s: "detect_server example_headers [] =
      [\<lparr>t_name = ''Apache'', t_version = Some ''2.4.41'', t_category = ''web_server''\<rparr>]"
    by code_simp
  have f: "detect_framework example_headers [] =
      [\<lparr>t_name = ''PHP'', t_version = Some ''7.4.3'', t_category = ''framework''\<rparr>]"
    by code_simp
  have c: "detect_cms example_headers [] =
      [\<lparr>t_name = ''Drupal'', t_version = None, t_category = ''cms''\<rparr>]"
    by code_simp
  show ?thesis
    using technologies_per_header [of example_headers] unfolding s f c by simp
qed

section \<open>The registry lookup\<close>

lemma split_on_not_Nil: "split_on sep s \<noteq> []"
  by (induction s) (auto split: list.splits)

lemma split_on_no_sep: "sep \<notin> set s \<Longrightarrow> split_on sep s = [s]"
  by (induction s) auto

lemma split_on_sep:
  "sep \<in> set s \<Longrightarrow>
     split_on sep s =
       takeWhile (\<lambda>c. c \<noteq> sep) s # split_on sep (tl (dropWhile (\<lambda>c. c \<noteq> sep) s))"
  by (induction s) auto

lemma join_Cons_Cons: "join sep ((c # x) # xs) = c # join sep (x # xs)"
  by (cases xs) auto

lemma join_split_on: "join sep (split_on sep s) = s"
proof (induction s)
  case Nil
  then show ?case by simp
next
  case (Cons c cs)
  obtain x xs where sp: "split_on sep cs = x # xs"
    using split_on_not_Nil [of sep cs] by (cases "split_on sep cs") auto
  show ?case
    using Cons sp by (auto simp add: join_Cons_Cons)
qed

text \<open>
  C8, as amended. Each line of the registry output is split at its first colon; the key
  is trimmed and lower-cased, the value trimmed; a line with no colon, an empty key or an
  empty value is dropped. When the external capability fails the probe's result is
  \<^verbatim>\<open>null\<close>, no map at all, and the reconnaissance still returns its aggregate.
\<close>

theorem registry_lookup_parse:
  "whois_line data line =
     (if CHR '':'' \<notin> set line then data
      else let key = takeWhile (\<lambda>c. c \<noteq> CHR '':'') line;
               v = trim (tl (dropWhile (\<lambda>c. c \<noteq> CHR '':'') line))
           in if key = [] \<or> v = [] then data
              else js_set (toLowerCase (trim key)) v data)
   \<and> parseWhoisData out = foldl whois_line [] (split_on (CHR 0x0A) out)
   \<and> getWhoisData (Inr out) = WhoisMap (parseWhoisData out)
   \<and> getWhoisData (Inl err) = WhoisNull
   \<and> (validateTarget target \<longrightarrow>
        (\<exists>r. performReconnaissance target subs ports dns web (Inr (getWhoisData (Inl err))) = Inr r
             \<and> r_whoisData r = Some WhoisNull))"
proof -
  have line: "whois_line data line =
     (if CHR '':'' \<notin> set line then data
      else let key = takeWhile (\<lambda>c. c \<noteq> CHR '':'') line;
               v = trim (tl (dropWhile (\<lambda>c. c \<noteq> CHR '':'') line))
           in if key = [] \<or> v = [] then data
              else js_set (toLowerCase (trim key)) v data)"
  proof (cases "CHR '':'' \<in> set line")
    case False
    then show ?thesis
      by (simp add: whois_line_def split_on_no_sep)
  next
    case True
    obtain x xs where sp: "split_on CHR '':'' (tl (dropWhile (\<lambda>c. c \<noteq> CHR '':'') line)) = x # xs"
      using split_on_not_Nil [of "CHR '':''" "tl (dropWhile (\<lambda>c. c \<noteq> CHR '':'') line)"]
      by (cases "split_on CHR '':'' (tl (dropWhile (\<lambda>c. c \<noteq> CHR '':'') line))") auto
    have j: "join CHR '':'' (x # xs) = tl (dropWhile (\<lambda>c. c \<noteq> CHR '':'') line)"
      using join_split_on [of "CHR '':''" "tl (dropWhile (\<lambda>c. c \<noteq> CHR '':'') line)"]
      unfolding sp .
    show ?thesis
      using True unfolding whois_line_def split_on_sep [OF True] sp
      by (simp add: j Let_def del: join.simps)
  qed
  have fail: "validateTarget target \<longrightarrow>
        (\<exists>r. performReconnaissance target subs ports dns web (Inr (getWhoisData (Inl err))) = Inr r
             \<and> r_whoisData r = Some WhoisNull)"
    by (simp add: performReconnaissance_def getWhoisData_def Let_def split: sum.splits)
  show ?thesis
    using line fail by (simp add: parseWhoisData_def getWhoisData_def)
qed

theorem registry_lookup_parse_witness:
  "parseWhoisData example_whois_output =
     [(''domain name'', ''EXAMPLE.COM''), (''updated date'', ''2020-01-01T00:00:00Z'')]
   \<and> whois_line [] ''Domain Name: EXAMPLE.COM'' = [(''domain name'', ''EXAMPLE.COM'')]
   \<and> whois_line [] ''no colon on this line'' = []
   \<and> getWhoisData (Inl (Error ''Command failed: whois a.example.com'')) = WhoisNull
   \<and> validateTarget ''a.example.com''
   \<and> (\<exists>r. performReconnaissance ''a.example.com'' (Inr []) (Inr []) (Inr []) (Inl (Error ''timeout''))
            (Inr (getWhoisData (Inl (Error ''Command failed: whois a.example.com'')))) = Inr r
          \<and> r_whoisData r = Some WhoisNull)"
proof -
  note r = registry_lookup_parse [of "[]" "''Domain Name: EXAMPLE.COM''" example_whois_output
      "Error ''Command failed: whois a.example.com''" "''a.example.com''"
      "Inr []" "Inr []" "Inr []" "Inl (Error ''timeout'')"]
  have v: "validateTarget ''a.example.com''"
    by code_simp
  have p: "parseWhoisData example_whois_output =
     [(''domain name'', ''EXAMPLE.COM''), (''updated date'', ''2020-01-01T00:00:00Z'')]"
    by code_simp
  have l1: "whois_line [] ''Domain Name: EXAMPLE.COM'' = [(''domain name'', ''EXAMPLE.COM'')]"
    by code_simp
  have l2: "whois_line [] ''no colon on this line'' = []"
    by code_simp
  show ?thesis
    using r v p l1 l2 by blast
qed

text \<open>
  Read to the letter, the specification has the probe yield an empty map on failure;
  the code yields \<^verbatim>\<open>null\<close>, which is not the empty map.
\<close>

theorem registry_failure_counterexample:
  "getWhoisData (Inl (Error ''Command failed: whois a.example.com'')) \<noteq> WhoisMap []"
  by (simp add: getWhoisData_def)

section \<open>The stage sequencer\<close>

lemma fold_createSubdomain:
  "foldl (\<lambda>d s. createSubdomain sid s d) db xs =
     db\<lparr>subdomains := subdomains db @
            map (\<lambda>(i, s). subdomain_row sid i s) (enumerate (currentSubdomainId db) xs),
        currentSubdomainId := currentSubdomainId db + length xs\<rparr>"
  by (induction xs arbitrary: db) (simp_all add: createSubdomain_def)

lemma fold_createTechnology:
  "foldl (\<lambda>d t. createTechnology sid t d) db xs =
     db\<lparr>technologies := technologies db @
            map (\<lambda>(i, t). technology_row sid i t) (enumerate (currentTechnologyId db) xs),
        currentTechnologyId := currentTechnologyId db + length xs\<rparr>"
  by (induction xs arbitrary: db) (simp_all add: createTechnology_def)

lemma fold_createVulnerability:
  "foldl (\<lambda>d f. createVulnerability sid f d) db xs =
     db\<lparr>vulnerabilities := vulnerabilities db @
            map (\<lambda>(i, f). vulnerability_row sid i f) (enumerate (currentVulnerabilityId db) xs),
        currentVulnerabilityId := currentVulnerabilityId db + length xs\<rparr>"
  by (induction xs arbitrary: db) (simp_all add: createVulnerability_def)

lemma create_mapping_accepted:
  "mapping_ok (mitreAttackTechniques db) m \<Longrightarrow>
     createVulnerabilityMitreMapping vid m db =
       Inr (db\<lparr>mitreMappings := mitreMappings db @ [mapping_row (currentMappingId db) vid m],
               currentMappingId := currentMappingId db + 1\<rparr>)"
  by (simp add: createVulnerabilityMitreMapping_def fits_integer_def mapping_ok_def)

lemma create_mapping_rejected:
  "\<not> mapping_ok (mitreAttackTechniques db) m \<Longrightarrow>
     \<exists>e. createVulnerabilityMitreMapping vid m db = Inl e"
  by (auto simp add: createVulnerabilityMitreMapping_def fits_integer_def mapping_ok_def)

lemma store_mappings_eq:
  "store_mappings vid ms db =
     db\<lparr>mitreMappings := mitreMappings db @
            map (\<lambda>(i, m). mapping_row i vid m)
              (enumerate (currentMappingId db)
                 (takeWhile (mapping_ok (mitreAttackTechniques db)) ms)),
        currentMappingId := currentMappingId db +
            length (takeWhile (mapping_ok (mitreAttackTechniques db)) ms)\<rparr>"
proof (induction ms arbitrary: db)
  case Nil
  then show ?case by simp
next
  case (Cons m ms)
  show ?case
  proof (cases "mapping_ok (mitreAttackTechniques db) m")
    case True
    show ?thesis
      using True by (simp add: create_mapping_accepted Cons)
  next
    case False
    then obtain e where "createVulnerabilityMitreMapping vid m db = Inl e"
      using create_mapping_rejected by blast
    then show ?thesis
      using False by simp
  qed
qed

lemma enumerate_Pair:
  "map (\<lambda>(i, m). mapping_row i vid m) (enumerate n ms) =
   map (\<lambda>(i, (v, m)). mapping_row i v m) (enumerate n (map (Pair vid) ms))"
  by (induction ms arbitrary: n) simp_all

lemma map_vulnerability_eq:
  "map_vulnerability env db v =
     db\<lparr>mitreMappings := mitreMappings db @
            map (\<lambda>(i, (vid, m)). mapping_row i vid m)
              (enumerate (currentMappingId db)
                 (map (Pair (v_id v))
                    (takeWhile (mapping_ok (mitreAttackTechniques db))
                       (mappings (analyzeVulnerabilityForMitre (env_mitre env v) v))))),
        currentMappingId := currentMappingId db +
            length (takeWhile (mapping_ok (mitreAttackTechniques db))
                      (mappings (analyzeVulnerabilityForMitre (env_mitre env v) v)))\<rparr>"
  by (simp add: map_vulnerability_def store_mappings_eq enumerate_Pair Let_def)

lemma fold_map_vulnerability:
  "foldl (map_vulnerability env) db vs =
     db\<lparr>mitreMappings := mitreMappings db @
            map (\<lambda>(i, (vid, m)). mapping_row i vid m)
              (enumerate (currentMappingId db)
                 (concat (map (\<lambda>v. map (Pair (v_id v))
                      (takeWhile (mapping_ok (mitreAttackTechniques db))
                         (mappings (analyzeVulnerabilityForMitre (env_mitre env v) v)))) vs))),
        currentMappingId := currentMappingId db +
            length (concat (map (\<lambda>v. map (Pair (v_id v))
                      (takeWhile (mapping_ok (mitreAttackTechniques db))
                         (mappings (analyzeVulnerabilityForMitre (env_mitre env v) v)))) vs))\<rparr>"
proof (induction vs arbitrary: db)
  case Nil
  then show ?case by simp
next
  case (Cons v vs)
  let ?d = "map_vulnerability env db v"
  have "foldl (map_vulnerability env) db (v # vs) = foldl (map_vulnerability env) ?d vs"
    by simp
  also have "\<dots> = ?d
     \<lparr>mitreMappings := mitreMappings ?d @
            map (\<lambda>(i, (vid, m)). mapping_row i vid m)
              (enumerate (currentMappingId ?d)
                 (concat (map (\<lambda>v. map (Pair (v_id v))
                      (takeWhile (mapping_ok (mitreAttackTechniques ?d))
                         (mappings (analyzeVulnerabilityForMitre (env_mitre env v) v)))) vs))),
        currentMappingId := currentMappingId ?d +
            length (concat (map (\<lambda>v. map (Pair (v_id v))
                      (takeWhile (mapping_ok (mitreAttackTechniques ?d))
                         (mappings (analyzeVulnerabilityForMitre (env_mitre env v) v)))) vs))\<rparr>"
    by (rule Cons.IH)
  also have "\<dots> = db
     \<lparr>mitreMappings := mitreMappings db @
            map (\<lambda>(i, (vid, m)). mapping_row i vid m)
              (enumerate (currentMappingId db)
                 (concat (map (\<lambda>v. map (Pair (v_id v))
                      (takeWhile (mapping_ok (mitreAttackTechniques db))
                         (mappings (analyzeVulnerabilityForMitre (env_mitre env v) v)))) (v # vs)))),
        currentMappingId := currentMappingId db +
            length (concat (map (\<lambda>v. map (Pair (v_id v))
                      (takeWhile (mapping_ok (mitreAttackTechniques db))
                         (mappings (analyzeVulnerabilityForMitre (env_mitre env v) v)))) (v # vs)))\<rparr>"
    unfolding map_vulnerability_eq [of env db v]
    by (simp add: enumerate_append_eq add.assoc)
  finally show ?case .
qed

lemma mapping_fields_rows:
  "map (mapping_fields \<circ> (\<lambda>(i, (vid, m)). mapping_row i vid m)) (enumerate n xs) =
   map (\<lambda>(vid, m). (vid, techniqueId m, \<lfloor>confidence m\<rfloor>, Some (reasoning m))) xs"
  by (induction xs arbitrary: n) (auto simp add: mapping_fields_def mapping_row_def)

lemma getScan_set_scan:
  "getScan sid (set_scan sid updates db) = map_option (apply_patch updates) (getScan sid db)"
proof -
  have "find (\<lambda>s. s_id s = sid) (map (\<lambda>s. if s_id s = sid then apply_patch updates s else s) xs)
        = map_option (apply_patch updates) (find (\<lambda>s. s_id s = sid) xs)" for xs
    by (induction xs) (auto simp add: apply_patch_def)
  then show ?thesis
    by (simp add: getScan_def set_scan_def)
qed

lemma updateScan_accepted:
  "updateScan sid \<lparr>u_status = st, u_progress = Some 0, u_riskScore = None,
                    u_results = r, u_completedAt = c\<rparr> db =
     Inr (set_scan sid \<lparr>u_status = st, u_progress = Some 0, u_riskScore = None,
                         u_results = r, u_completedAt = c\<rparr> db)"
  "updateScan sid \<lparr>u_status = st, u_progress = None, u_riskScore = None,
                    u_results = r, u_completedAt = c\<rparr> db =
     Inr (set_scan sid \<lparr>u_status = st, u_progress = None, u_riskScore = None,
                         u_results = r, u_completedAt = c\<rparr> db)"
  "int32 k \<Longrightarrow>
   updateScan sid \<lparr>u_status = st, u_progress = Some 100, u_riskScore = Some k,
                    u_results = r, u_completedAt = c\<rparr> db =
     Inr (set_scan sid \<lparr>u_status = st, u_progress = Some 100, u_riskScore = Some k,
                         u_results = r, u_completedAt = c\<rparr> db)"
  by (simp_all add: updateScan_def patch_accepted_def int32_def)

lemma updateScan_rejected:
  "\<not> int32 k \<Longrightarrow>
   updateScan sid \<lparr>u_status = st, u_progress = p, u_riskScore = Some k,
                    u_results = r, u_completedAt = c\<rparr> db = Inl IntegerOutOfRange"
  by (simp add: updateScan_def patch_accepted_def)


lemma performScan_invalid:
  assumes "run_recon env target = Inl (Error m)"
  shows "performScan env sid target ty db =
    (set_scan sid \<lparr>u_status = Some ''failed'', u_progress = None, u_riskScore = None,
                       u_results = None, u_completedAt = Some (env_now env)\<rparr>
       (set_scan sid \<lparr>u_status = Some ''running'', u_progress = Some 0, u_riskScore = None,
                          u_results = None, u_completedAt = None\<rparr> db),
     [Stored sid \<lparr>u_status = Some ''running'', u_progress = Some 0, u_riskScore = None,
                   u_results = None, u_completedAt = None\<rparr>,
      Emitted sid (running 0 None),
      Emitted sid (running 25 (Some ''Starting reconnaissance...'')),
      Stored sid \<lparr>u_status = Some ''failed'', u_progress = None, u_riskScore = None,
                   u_results = None, u_completedAt = Some (env_now env)\<rparr>,
      Emitted sid \<lparr>e_status = ''failed'', e_progress = None,
                    e_message = Some (''Scan failed: '' @ m), e_riskScore = None\<rparr>])"
  by (simp add: performScan_def scan_failed_def updateScan_accepted Let_def assms)

lemma performScan_inference_failed:
  assumes "run_recon env target = Inr recon" and "env_analysis env = Inl e"
  shows "performScan env sid target ty db =
    (set_scan sid \<lparr>u_status = Some ''failed'', u_progress = None, u_riskScore = None,
                       u_results = None, u_completedAt = Some (env_now env)\<rparr>
       (foldl (\<lambda>d tech. createTechnology sid tech d)
          (foldl (\<lambda>d subdomain. createSubdomain sid subdomain d)
             (set_scan sid \<lparr>u_status = Some ''running'', u_progress = Some 0,
                  u_riskScore = None, u_results = None, u_completedAt = None\<rparr> db)
             (r_subdomains recon))
          (r_technologies recon)),
     [Stored sid \<lparr>u_status = Some ''running'', u_progress = Some 0, u_riskScore = None,
                   u_results = None, u_completedAt = None\<rparr>,
      Emitted sid (running 0 None),
      Emitted sid (running 25 (Some ''Starting reconnaissance...'')),
      Emitted sid (running 50 (Some ''Analyzing subdomains...'')),
      Emitted sid (running 65 (Some ''Identifying technologies...'')),
      Emitted sid (running 80 (Some ''Analyzing vulnerabilities with AI...'')),
      Stored sid \<lparr>u_status = Some ''failed'', u_progress = None, u_riskScore = None,
                   u_results = None, u_completedAt = Some (env_now env)\<rparr>,
      Emitted sid \<lparr>e_status = ''failed'', e_progress = None,
                    e_message = Some ''Scan failed: Failed to analyze vulnerabilities with AI'',
                    e_riskScore = None\<rparr>])"
  by (simp add: performScan_def scan_failed_def analyzeVulnerabilities_def updateScan_accepted
      Let_def assms)

lemma performScan_completed:
  assumes "run_recon env target = Inr recon" and "env_analysis env = Inr va"
    and "int32 (round (va_riskScore va))"
  shows "performScan env sid target ty db =
    (let db4 = foldl (\<lambda>d vuln. createVulnerability sid vuln d)
                 (foldl (\<lambda>d tech. createTechnology sid tech d)
                    (foldl (\<lambda>d subdomain. createSubdomain sid subdomain d)
                       (set_scan sid \<lparr>u_status = Some ''running'', u_progress = Some 0,
                            u_riskScore = None, u_results = None, u_completedAt = None\<rparr> db)
                       (r_subdomains recon))
                    (r_technologies recon))
                 (va_vulnerabilities va)
     in (set_scan sid \<lparr>u_status = Some ''completed'', u_progress = Some 100,
                          u_riskScore = Some (round (va_riskScore va)),
                          u_results = Some recon, u_completedAt = Some (env_now env)\<rparr>
           (foldl (map_vulnerability env) db4 (getVulnerabilitiesByScan sid db4)),
         [Stored sid \<lparr>u_status = Some ''running'', u_progress = Some 0, u_riskScore = None,
                       u_results = None, u_completedAt = None\<rparr>,
          Emitted sid (running 0 None),
          Emitted sid (running 25 (Some ''Starting reconnaissance...'')),
          Emitted sid (running 50 (Some ''Analyzing subdomains...'')),
          Emitted sid (running 65 (Some ''Identifying technologies...'')),
          Emitted sid (running 80 (Some ''Analyzing vulnerabilities with AI...'')),
          Emitted sid (running 90 (Some ''Mapping to MITRE ATT&CK framework...'')),
          Stored sid \<lparr>u_status = Some ''completed'', u_progress = Some 100,
                       u_riskScore = Some (round (va_riskScore va)),
                       u_results = Some recon, u_completedAt = Some (env_now env)\<rparr>,
          Emitted sid \<lparr>e_status = ''completed'', e_progress = Some 100,
                        e_message = Some ''Scan completed successfully'',
                        e_riskScore = Some (va_riskScore va)\<rparr>]))"
  by (simp add: performScan_def analyzeVulnerabilities_def updateScan_accepted Let_def assms)

lemma performScan_rejected:
  assumes "run_recon env target = Inr recon" and "env_analysis env = Inr va"
    and "\<not> int32 (round (va_riskScore va))"
  shows "performScan env sid target ty db =
    (let db4 = foldl (\<lambda>d vuln. createVulnerability sid vuln d)
                 (foldl (\<lambda>d tech. createTechnology sid tech d)
                    (foldl (\<lambda>d subdomain. createSubdomain sid subdomain d)
                       (set_scan sid \<lparr>u_status = Some ''running'', u_progress = Some 0,
                            u_riskScore = None, u_results = None, u_completedAt = None\<rparr> db)
                       (r_subdomains recon))
                    (r_technologies recon))
                 (va_vulnerabilities va)
     in (set_scan sid \<lparr>u_status = Some ''failed'', u_progress = None, u_riskScore = None,
                        u_results = None, u_completedAt = Some (env_now env)\<rparr>
           (foldl (map_vulnerability env) db4 (getVulnerabilitiesByScan sid db4)),
         [Stored sid \<lparr>u_status = Some ''running'', u_progress = Some 0, u_riskScore = None,
                       u_results = None, u_completedAt = None\<rparr>,
          Emitted sid (running 0 None),
          Emitted sid (running 25 (Some ''Starting reconnaissance...'')),
          Emitted sid (running 50 (Some ''Analyzing subdomains...'')),
          Emitted sid (running 65 (Some ''Identifying technologies...'')),
          Emitted sid (running 80 (Some ''Analyzing vulnerabilities with AI...'')),
          Emitted sid (running 90 (Some ''Mapping to MITRE ATT&CK framework...'')),
          Stored sid \<lparr>u_status = Some ''failed'', u_progress = None, u_riskScore = None,
                       u_results = None, u_completedAt = Some (env_now env)\<rparr>,
          Emitted sid \<lparr>e_status = ''failed'', e_progress = None,
                        e_message = Some (''Scan failed: '' @ env_dbMessage env IntegerOutOfRange),
                        e_riskScore = None\<rparr>]))"
  by (simp add: performScan_def scan_failed_def analyzeVulnerabilities_def updateScan_accepted
      updateScan_rejected db_failure_def Let_def assms)

lemma getScan_frame:
  "getScan sid (db\<lparr>subdomains := a\<rparr>) = getScan sid db"
  "getScan sid (db\<lparr>technologies := b\<rparr>) = getScan sid db"
  "getScan sid (db\<lparr>vulnerabilities := c\<rparr>) = getScan sid db"
  "getScan sid (db\<lparr>mitreMappings := d\<rparr>) = getScan sid db"
  "getScan sid (db\<lparr>currentSubdomainId := n1\<rparr>) = getScan sid db"
  "getScan sid (db\<lparr>currentTechnologyId := n2\<rparr>) = getScan sid db"
  "getScan sid (db\<lparr>currentVulnerabilityId := n3\<rparr>) = getScan sid db"
  "getScan sid (db\<lparr>currentMappingId := n4\<rparr>) = getScan sid db"
  by (simp_all add: getScan_def)

lemma set_scan_frame:
  "subdomains (set_scan sid u db) = subdomains db"
  "technologies (set_scan sid u db) = technologies db"
  "vulnerabilities (set_scan sid u db) = vulnerabilities db"
  "mitreMappings (set_scan sid u db) = mitreMappings db"
  "mitreAttackTechniques (set_scan sid u db) = mitreAttackTechniques db"
  "currentSubdomainId (set_scan sid u db) = currentSubdomainId db"
  "currentTechnologyId (set_scan sid u db) = currentTechnologyId db"
  "currentVulnerabilityId (set_scan sid u db) = currentVulnerabilityId db"
  "currentMappingId (set_scan sid u db) = currentMappingId db"
  by (simp_all add: set_scan_def)

lemma patch_failed_after_running:
  "map_option (apply_patch \<lparr>u_status = Some ''failed'', u_progress = None, u_riskScore = None,
                       u_results = None, u_completedAt = Some now\<rparr>)
     (map_option (apply_patch \<lparr>u_status = Some ''running'', u_progress = Some 0,
                  u_riskScore = None, u_results = None, u_completedAt = None\<rparr>) x)
   = map_option (\<lambda>s. s\<lparr>s_status := ''failed'', s_progress := Some 0,
                          s_completedAt := Some now\<rparr>) x"
  by (cases x) (simp_all add: apply_patch_def)

lemma patch_completed_after_running:
  "map_option (apply_patch \<lparr>u_status = Some ''completed'', u_progress = Some 100,
                          u_riskScore = Some k, u_results = Some recon,
                          u_completedAt = Some now\<rparr>)
     (map_option (apply_patch \<lparr>u_status = Some ''running'', u_progress = Some 0,
                  u_riskScore = None, u_results = None, u_completedAt = None\<rparr>) x)
   = map_option (\<lambda>s. s\<lparr>s_status := ''completed'', s_progress := Some 100,
                          s_riskScore := Some k, s_results := Some recon,
                          s_completedAt := Some now\<rparr>) x"
  by (cases x) (simp_all add: apply_patch_def)

text \<open>
  C4, as amended. When the vulnerability-inference call fails or its content does not
  parse, the scan goes straight to status failed; its stored progress stays at the value
  written on entering running, 0 (the failure update does not touch it, and the
  checkpoints 25 to 80 were broadcast without being stored); a completion time is
  stamped; exactly one failed event is emitted, last, carrying the error's message; and
  the run is not repeated: the trace holds one start and one failure.
\<close>

theorem inference_failure_amended:
  assumes "run_recon env target = Inr recon" and "env_analysis env = Inl e"
  shows "snd (performScan env sid target ty db) =
     [Stored sid \<lparr>u_status = Some ''running'', u_progress = Some 0, u_riskScore = None,
                   u_results = None, u_completedAt = None\<rparr>,
      Emitted sid (running 0 None),
      Emitted sid (running 25 (Some ''Starting reconnaissance...'')),
      Emitted sid (running 50 (Some ''Analyzing subdomains...'')),
      Emitted sid (running 65 (Some ''Identifying technologies...'')),
      Emitted sid (running 80 (Some ''Analyzing vulnerabilities with AI...'')),
      Stored sid \<lparr>u_status = Some ''failed'', u_progress = None, u_riskScore = None,
                   u_results = None, u_completedAt = Some (env_now env)\<rparr>,
      Emitted sid \<lparr>e_status = ''failed'', e_progress = None,
                    e_message = Some ''Scan failed: Failed to analyze vulnerabilities with AI'',
                    e_riskScore = None\<rparr>]
   \<and> getScan sid (fst (performScan env sid target ty db)) =
       map_option (\<lambda>s. s\<lparr>s_status := ''failed'', s_progress := Some 0,
                            s_completedAt := Some (env_now env)\<rparr>) (getScan sid db)"
  unfolding performScan_inference_failed [OF assms]
  by (simp add: getScan_set_scan fold_createSubdomain fold_createTechnology getScan_frame
      patch_failed_after_running)


lemma example_recon_run: "run_recon example_env ''a.example.com'' = Inr example_recon"
  by code_simp

lemma example_recon_run_failing: "run_recon example_env_failing ''a.example.com'' = Inr example_recon"
  by code_simp

theorem inference_failure_amended_witness:
  "run_recon example_env_failing ''a.example.com'' = Inr example_recon
   \<and> env_analysis example_env_failing = Inl (InvalidOutput ''not json'')
   \<and> emitted (snd (performScan example_env_failing 1 ''a.example.com'' ''comprehensive'' example_storage)) =
       [running 0 None,
        running 25 (Some ''Starting reconnaissance...''),
        running 50 (Some ''Analyzing subdomains...''),
        running 65 (Some ''Identifying technologies...''),
        running 80 (Some ''Analyzing vulnerabilities with AI...''),
        \<lparr>e_status = ''failed'', e_progress = None,
         e_message = Some ''Scan failed: Failed to analyze vulnerabilities with AI'',
         e_riskScore = None\<rparr>]
   \<and> getScan 1 (fst (performScan example_env_failing 1 ''a.example.com'' ''comprehensive'' example_storage)) =
       Some (example_scan\<lparr>s_status := ''failed'', s_progress := Some 0, s_completedAt := Some 2000\<rparr>)"
proof -
  have a: "env_analysis example_env_failing = Inl (InvalidOutput ''not json'')"
    by (simp add: example_env_failing_def)
  have g: "getScan (Suc 0) example_storage = Some example_scan"
    by code_simp
  have n: "env_now example_env_failing = 2000"
    by code_simp
  show ?thesis
    using inference_failure_amended [OF example_recon_run_failing a, of 1 "''comprehensive''" example_storage]
      example_recon_run_failing a
    by (simp add: g n)
qed

text \<open>
  Read to the letter, the specification has the stored progress keep the last checkpoint
  reached. In this run the checkpoints 25, 50, 65 and 80 were reached and the stored
  progress is 0.
\<close>

theorem inference_failure_counterexample:
  "env_analysis example_env_failing = Inl (InvalidOutput ''not json'')
   \<and> progress_values (emitted (snd (performScan example_env_failing 1 ''a.example.com''
          ''comprehensive'' example_storage))) = [0, 25, 50, 65, 80]
   \<and> map_option s_progress (getScan 1 (fst (performScan example_env_failing 1 ''a.example.com''
          ''comprehensive'' example_storage))) = Some (Some 0)
   \<and> map_option s_progress (getScan 1 (fst (performScan example_env_failing 1 ''a.example.com''
          ''comprehensive'' example_storage))) \<noteq>
       Some (Some (last (progress_values (emitted (snd (performScan example_env_failing 1
          ''a.example.com'' ''comprehensive'' example_storage))))))"
  by code_simp

lemma scan_writes:
  "(stored_writes (snd (performScan env sid target ty db)) = [(Some ''running'', Some 0), (Some ''completed'', Some 100)]
    \<or> stored_writes (snd (performScan env sid target ty db)) = [(Some ''running'', Some 0), (Some ''failed'', None)])
   \<and> prefix (progress_values (emitted (snd (performScan env sid target ty db)))) [0, 25, 50, 65, 80, 90, 100]"
proof (cases "run_recon env target")
  case (Inl err)
  obtain m where "run_recon env target = Inl (Error m)"
    using Inl by (cases err) auto
  then show ?thesis
    unfolding performScan_invalid [OF \<open>run_recon env target = Inl (Error m)\<close>]
    by (simp add: progress_values_def running_def List.map_filter_simps)
next
  case (Inr recon)
  note recon = this
  show ?thesis
  proof (cases "env_analysis env")
    case (Inl e)
    show ?thesis
      unfolding performScan_inference_failed [OF recon Inl]
      by (simp add: progress_values_def running_def List.map_filter_simps)
  next
    case (Inr va)
    show ?thesis
    proof (cases "int32 (round (va_riskScore va))")
      case True
      show ?thesis
        unfolding performScan_completed [OF recon Inr True] Let_def
        by (simp add: progress_values_def running_def List.map_filter_simps)
    next
      case False
      show ?thesis
        unfolding performScan_rejected [OF recon Inr False] Let_def
        by (simp add: progress_values_def running_def List.map_filter_simps)
    qed
  qed
qed

lemma scan_recon_stage:
  assumes recon: "run_recon env target = Inr recon"
  shows "prefix [0, 25, 50, 65, 80] (progress_values (emitted (snd (performScan env sid target ty db))))
        \<and> subdomains (fst (performScan env sid target ty db)) =
            subdomains db @ map (\<lambda>(i, s). subdomain_row sid i s)
                              (enumerate (currentSubdomainId db) (r_subdomains recon))
        \<and> technologies (fst (performScan env sid target ty db)) =
            technologies db @ map (\<lambda>(i, t). technology_row sid i t)
                                (enumerate (currentTechnologyId db) (r_technologies recon))"
proof (cases "env_analysis env")
  case (Inl e)
  show ?thesis
    unfolding performScan_inference_failed [OF recon Inl]
    by (simp add: getScan_set_scan fold_createSubdomain fold_createTechnology
      fold_createVulnerability fold_map_vulnerability getScan_frame set_scan_frame
      patch_completed_after_running patch_failed_after_running getVulnerabilitiesByScan_def
      progress_values_def running_def List.map_filter_simps)
next
  case (Inr va)
  show ?thesis
  proof (cases "int32 (round (va_riskScore va))")
    case True
    show ?thesis
      unfolding performScan_completed [OF recon Inr True] Let_def
      by (simp add: getScan_set_scan fold_createSubdomain fold_createTechnology
      fold_createVulnerability fold_map_vulnerability getScan_frame set_scan_frame
      patch_completed_after_running patch_failed_after_running getVulnerabilitiesByScan_def
      progress_values_def running_def List.map_filter_simps)
  next
    case False
    show ?thesis
      unfolding performScan_rejected [OF recon Inr False] Let_def
      by (simp add: getScan_set_scan fold_createSubdomain fold_createTechnology
      fold_createVulnerability fold_map_vulnerability getScan_frame set_scan_frame
      patch_completed_after_running patch_failed_after_running getVulnerabilitiesByScan_def
      progress_values_def running_def List.map_filter_simps)
  qed
qed

lemma mapping_fields_concat:
  "map (\<lambda>(vid, m). (vid, techniqueId m, \<lfloor>confidence m\<rfloor>, Some (reasoning m)))
     (concat (map (\<lambda>v. map (Pair (v_id v)) (g v)) vs)) =
   concat (map (\<lambda>v. map (\<lambda>m. (v_id v, techniqueId m, \<lfloor>confidence m\<rfloor>, Some (reasoning m))) (g v)) vs)"
  by (induction vs) simp_all

lemma scan_analysis_stage:
  assumes recon: "run_recon env target = Inr recon" and va: "env_analysis env = Inr va"
  shows "prefix [0, 25, 50, 65, 80, 90] (progress_values (emitted (snd (performScan env sid target ty db))))
        \<and> vulnerabilities (fst (performScan env sid target ty db)) =
            vulnerabilities db @ map (\<lambda>(i, f). vulnerability_row sid i f)
                                   (enumerate (currentVulnerabilityId db) (va_vulnerabilities va))
        \<and> take (length (mitreMappings db)) (mitreMappings (fst (performScan env sid target ty db))) = mitreMappings db
        \<and> map mapping_fields (drop (length (mitreMappings db)) (mitreMappings (fst (performScan env sid target ty db)))) =
            concat (map (\<lambda>v. map (\<lambda>m. (v_id v, techniqueId m, \<lfloor>confidence m\<rfloor>, Some (reasoning m)))
                              (takeWhile (mapping_ok (mitreAttackTechniques db))
                                 (mappings (analyzeVulnerabilityForMitre (env_mitre env v) v))))
                      (getVulnerabilitiesByScan sid (fst (performScan env sid target ty db))))"
proof (cases "int32 (round (va_riskScore va))")
  case True
  show ?thesis
    unfolding performScan_completed [OF recon va True] Let_def
    by (simp add: getScan_set_scan fold_createSubdomain fold_createTechnology
      fold_createVulnerability fold_map_vulnerability getScan_frame set_scan_frame
      patch_completed_after_running patch_failed_after_running getVulnerabilitiesByScan_def
      progress_values_def running_def List.map_filter_simps
      mapping_fields_rows mapping_fields_concat)
next
  case False
  show ?thesis
    unfolding performScan_rejected [OF recon va False] Let_def
    by (simp add: getScan_set_scan fold_createSubdomain fold_createTechnology
      fold_createVulnerability fold_map_vulnerability getScan_frame set_scan_frame
      patch_completed_after_running patch_failed_after_running getVulnerabilitiesByScan_def
      progress_values_def running_def List.map_filter_simps
      mapping_fields_rows mapping_fields_concat)
qed

lemma scan_completed_stage:
  assumes "run_recon env target = Inr recon" and "env_analysis env = Inr va"
    and "int32 (round (va_riskScore va))"
  shows "snd (performScan env sid target ty db) =
        [Stored sid \<lparr>u_status = Some ''running'', u_progress = Some 0, u_riskScore = None,
                      u_results = None, u_completedAt = None\<rparr>,
         Emitted sid (running 0 None),
         Emitted sid (running 25 (Some ''Starting reconnaissance...'')),
         Emitted sid (running 50 (Some ''Analyzing subdomains...'')),
         Emitted sid (running 65 (Some ''Identifying technologies...'')),
         Emitted sid (running 80 (Some ''Analyzing vulnerabilities with AI...'')),
         Emitted sid (running 90 (Some ''Mapping to MITRE ATT&CK framework...'')),
         Stored sid \<lparr>u_status = Some ''completed'', u_progress = Some 100,
                      u_riskScore = Some (round (va_riskScore va)),
                      u_results = Some recon, u_completedAt = Some (env_now env)\<rparr>,
         Emitted sid \<lparr>e_status = ''completed'', e_progress = Some 100,
                       e_message = Some ''Scan completed successfully'',
                       e_riskScore = Some (va_riskScore va)\<rparr>]
        \<and> getScan sid (fst (performScan env sid target ty db)) =
            map_option (\<lambda>s. s\<lparr>s_status := ''completed'', s_progress := Some 100,
                                 s_riskScore := Some (round (va_riskScore va)),
                                 s_results := Some recon,
                                 s_completedAt := Some (env_now env)\<rparr>) (getScan sid db)"
  unfolding performScan_completed [OF assms] Let_def
  by (simp add: getScan_set_scan fold_createSubdomain fold_createTechnology
      fold_createVulnerability fold_map_vulnerability getScan_frame
      patch_completed_after_running)

lemma scan_rejected_stage:
  assumes "run_recon env target = Inr recon" and "env_analysis env = Inr va"
    and "\<not> int32 (round (va_riskScore va))"
  shows "snd (performScan env sid target ty db) =
        [Stored sid \<lparr>u_status = Some ''running'', u_progress = Some 0, u_riskScore = None,
                      u_results = None, u_completedAt = None\<rparr>,
         Emitted sid (running 0 None),
         Emitted sid (running 25 (Some ''Starting reconnaissance...'')),
         Emitted sid (running 50 (Some ''Analyzing subdomains...'')),
         Emitted sid (running 65 (Some ''Identifying technologies...'')),
         Emitted sid (running 80 (Some ''Analyzing vulnerabilities with AI...'')),
         Emitted sid (running 90 (Some ''Mapping to MITRE ATT&CK framework...'')),
         Stored sid \<lparr>u_status = Some ''failed'', u_progress = None, u_riskScore = None,
                      u_results = None, u_completedAt = Some (env_now env)\<rparr>,
         Emitted sid \<lparr>e_status = ''failed'', e_progress = None,
                       e_message = Some (''Scan failed: '' @ env_dbMessage env IntegerOutOfRange),
                       e_riskScore = None\<rparr>]
        \<and> getScan sid (fst (performScan env sid target ty db)) =
            map_option (\<lambda>s. s\<lparr>s_status := ''failed'', s_progress := Some 0,
                                 s_completedAt := Some (env_now env)\<rparr>) (getScan sid db)"
  unfolding performScan_rejected [OF assms] Let_def
  by (simp add: getScan_set_scan fold_createSubdomain fold_createTechnology
      fold_createVulnerability fold_map_vulnerability getScan_frame
      patch_failed_after_running)

text \<open>
  C3, as amended. For every scan and every stage it completes, the sequencer (a)
  persists the records that stage derives through the storage collaborator: the
  subdomains and technologies once the reconnaissance returns, the vulnerabilities once
  the inference returns, and for each vulnerability the technique mappings up to the
  first one the store rejects; (b) writes the stored row's status and progress at two
  moments only, running/0 on entry and completed/100 (or failed, progress untouched) at
  the end, and not at the checkpoints between; and (c) emits exactly one event for each
  checkpoint reached, in the order 0, 25, 50, 65, 80, 90, 100. A final update that the
  store rejects (a risk score outside 32 bits) ends the scan failed after checkpoint 90.
\<close>

theorem stage_checkpoints_amended:
  "(stored_writes (snd (performScan env sid target ty db)) = [(Some ''running'', Some 0), (Some ''completed'', Some 100)]
    \<or> stored_writes (snd (performScan env sid target ty db)) = [(Some ''running'', Some 0), (Some ''failed'', None)])
   \<and> prefix (progress_values (emitted (snd (performScan env sid target ty db)))) [0, 25, 50, 65, 80, 90, 100]
   \<and> (run_recon env target = Inr recon \<longrightarrow>
        prefix [0, 25, 50, 65, 80] (progress_values (emitted (snd (performScan env sid target ty db))))
        \<and> subdomains (fst (performScan env sid target ty db)) =
            subdomains db @ map (\<lambda>(i, s). subdomain_row sid i s)
                              (enumerate (currentSubdomainId db) (r_subdomains recon))
        \<and> technologies (fst (performScan env sid target ty db)) =
            technologies db @ map (\<lambda>(i, t). technology_row sid i t)
                                (enumerate (currentTechnologyId db) (r_technologies recon)))
   \<and> (run_recon env target = Inr recon \<and> env_analysis env = Inr va \<longrightarrow>
        prefix [0, 25, 50, 65, 80, 90] (progress_values (emitted (snd (performScan env sid target ty db))))
        \<and> vulnerabilities (fst (performScan env sid target ty db)) =
            vulnerabilities db @ map (\<lambda>(i, f). vulnerability_row sid i f)
                                   (enumerate (currentVulnerabilityId db) (va_vulnerabilities va))
        \<and> take (length (mitreMappings db)) (mitreMappings (fst (performScan env sid target ty db))) = mitreMappings db
        \<and> map mapping_fields (drop (length (mitreMappings db)) (mitreMappings (fst (performScan env sid target ty db)))) =
            concat (map (\<lambda>v. map (\<lambda>m. (v_id v, techniqueId m, \<lfloor>confidence m\<rfloor>, Some (reasoning m)))
                              (takeWhile (mapping_ok (mitreAttackTechniques db))
                                 (mappings (analyzeVulnerabilityForMitre (env_mitre env v) v))))
                      (getVulnerabilitiesByScan sid (fst (performScan env sid target ty db)))))
   \<and> (run_recon env target = Inr recon \<and> env_analysis env = Inr va
        \<and> int32 (round (va_riskScore va)) \<longrightarrow>
        snd (performScan env sid target ty db) =
        [Stored sid \<lparr>u_status = Some ''running'', u_progress = Some 0, u_riskScore = None,
                      u_results = None, u_completedAt = None\<rparr>,
         Emitted sid (running 0 None),
         Emitted sid (running 25 (Some ''Starting reconnaissance...'')),
         Emitted sid (running 50 (Some ''Analyzing subdomains...'')),
         Emitted sid (running 65 (Some ''Identifying technologies...'')),
         Emitted sid (running 80 (Some ''Analyzing vulnerabilities with AI...'')),
         Emitted sid (running 90 (Some ''Mapping to MITRE ATT&CK framework...'')),
         Stored sid \<lparr>u_status = Some ''completed'', u_progress = Some 100,
                      u_riskScore = Some (round (va_riskScore va)),
                      u_results = Some recon, u_completedAt = Some (env_now env)\<rparr>,
         Emitted sid \<lparr>e_status = ''completed'', e_progress = Some 100,
                       e_message = Some ''Scan completed successfully'',
                       e_riskScore = Some (va_riskScore va)\<rparr>]
        \<and> getScan sid (fst (performScan env sid target ty db)) =
            map_option (\<lambda>s. s\<lparr>s_status := ''completed'', s_progress := Some 100,
                                 s_riskScore := Some (round (va_riskScore va)),
                                 s_results := Some recon,
                                 s_completedAt := Some (env_now env)\<rparr>) (getScan sid db))
   \<and> (run_recon env target = Inr recon \<and> env_analysis env = Inr va
        \<and> \<not> int32 (round (va_riskScore va)) \<longrightarrow>
        snd (performScan env sid target ty db) =
        [Stored sid \<lparr>u_status = Some ''running'', u_progress = Some 0, u_riskScore = None,
                      u_results = None, u_completedAt = None\<rparr>,
         Emitted sid (running 0 None),
         Emitted sid (running 25 (Some ''Starting reconnaissance...'')),
         Emitted sid (running 50 (Some ''Analyzing subdomains...'')),
         Emitted sid (running 65 (Some ''Identifying technologies...'')),
         Emitted sid (running 80 (Some ''Analyzing vulnerabilities with AI...'')),
         Emitted sid (running 90 (Some ''Mapping to MITRE ATT&CK framework...'')),
         Stored sid \<lparr>u_status = Some ''failed'', u_progress = None, u_riskScore = None,
                      u_results = None, u_completedAt = Some (env_now env)\<rparr>,
         Emitted sid \<lparr>e_status = ''failed'', e_progress = None,
                       e_message = Some (''Scan failed: '' @ env_dbMessage env IntegerOutOfRange),
                       e_riskScore = None\<rparr>]
        \<and> getScan sid (fst (performScan env sid target ty db)) =
            map_option (\<lambda>s. s\<lparr>s_status := ''failed'', s_progress := Some 0,
                                 s_completedAt := Some (env_now env)\<rparr>) (getScan sid db))"
  using scan_writes [of env sid target ty db]
    scan_recon_stage [of env target recon sid ty db]
    scan_analysis_stage [of env target recon va sid ty db]
    scan_completed_stage [of env target recon va sid ty db]
    scan_rejected_stage [of env target recon va sid ty db]
  by blast

lemma example_recon_run_overflow:
  "run_recon example_env_overflow ''a.example.com'' = Inr example_recon"
  by code_simp

lemma example_recon_run_rejecting:
  "run_recon example_env_rejecting ''a.example.com'' = Inr example_recon"
  by code_simp

theorem stage_checkpoints_amended_witness:
  "run_recon example_env ''a.example.com'' = Inr example_recon
   \<and> env_analysis example_env = Inr example_analysis
   \<and> int32 (round (va_riskScore example_analysis))
   \<and> progress_values (emitted (snd (performScan example_env 1 ''a.example.com''
        ''comprehensive'' example_storage))) = [0, 25, 50, 65, 80, 90, 100]
   \<and> stored_writes (snd (performScan example_env 1 ''a.example.com''
        ''comprehensive'' example_storage)) =
       [(Some ''running'', Some 0), (Some ''completed'', Some 100)]
   \<and> getScan 1 (fst (performScan example_env 1 ''a.example.com'' ''comprehensive'' example_storage)) =
       Some (example_scan\<lparr>s_status := ''completed'', s_progress := Some 100,
               s_riskScore := Some 7, s_results := Some example_recon,
               s_completedAt := Some 2000\<rparr>)
   \<and> subdomains (fst (performScan example_env 1 ''a.example.com'' ''comprehensive'' example_storage)) =
       [subdomain_row 1 1 ''www.a.example.com'']
   \<and> run_recon example_env_rejecting ''a.example.com'' = Inr example_recon
   \<and> env_analysis example_env_rejecting = Inr example_analysis
   \<and> map mapping_fields (mitreMappings (fst (performScan example_env_rejecting 1 ''a.example.com''
        ''comprehensive'' example_storage))) =
       [(1, ''T1190'', 90, Some ''public-facing'')]
   \<and> run_recon example_env_overflow ''a.example.com'' = Inr example_recon
   \<and> env_analysis example_env_overflow = Inr (example_analysis\<lparr>va_riskScore := 3000000000\<rparr>)
   \<and> \<not> int32 (round (va_riskScore (example_analysis\<lparr>va_riskScore := 3000000000\<rparr>)))
   \<and> progress_values (emitted (snd (performScan example_env_overflow 1 ''a.example.com''
        ''comprehensive'' example_storage))) = [0, 25, 50, 65, 80, 90]
   \<and> getScan 1 (fst (performScan example_env_overflow 1 ''a.example.com'' ''comprehensive''
        example_storage)) =
       Some (example_scan\<lparr>s_status := ''failed'', s_progress := Some 0,
               s_completedAt := Some 2000\<rparr>)"
proof -
  have a: "env_analysis example_env = Inr example_analysis"
    by (simp add: example_env_def)
  have a2: "env_analysis example_env_rejecting = Inr example_analysis"
    by (simp add: example_env_rejecting_def example_env_def)
  have a3: "env_analysis example_env_overflow = Inr (example_analysis\<lparr>va_riskScore := 3000000000\<rparr>)"
    by (simp add: example_env_overflow_def)
  have k: "int32 (round (va_riskScore example_analysis))"
    by (simp add: example_analysis_def int32_def)
  have k3: "\<not> int32 (round (va_riskScore (example_analysis\<lparr>va_riskScore := 3000000000\<rparr>)))"
    by (simp add: int32_def)
  note t1 = stage_checkpoints_amended [of example_env 1 "''a.example.com''" "''comprehensive''"
      example_storage example_recon example_analysis]
  note t2 = stage_checkpoints_amended [of example_env_rejecting 1 "''a.example.com''"
      "''comprehensive''" example_storage example_recon example_analysis]
  note t3 = stage_checkpoints_amended [of example_env_overflow 1 "''a.example.com''"
      "''comprehensive''" example_storage example_recon
      "example_analysis\<lparr>va_riskScore := 3000000000\<rparr>"]
  have p1: "progress_values (emitted (snd (performScan example_env 1 ''a.example.com''
        ''comprehensive'' example_storage))) = [0, 25, 50, 65, 80, 90, 100]"
    using t1 example_recon_run a k
    by (simp add: progress_values_def running_def List.map_filter_simps)
  have w1: "stored_writes (snd (performScan example_env 1 ''a.example.com''
        ''comprehensive'' example_storage)) =
       [(Some ''running'', Some 0), (Some ''completed'', Some 100)]"
    using t1 example_recon_run a k by simp
  have g: "getScan (Suc 0) example_storage = Some example_scan"
    by code_simp
  have n: "env_now example_env = 2000" "env_now example_env_overflow = 2000"
    by code_simp+
  have r7: "round (va_riskScore example_analysis) = 7"
    by (simp add: example_analysis_def)
  have g1: "getScan 1 (fst (performScan example_env 1 ''a.example.com'' ''comprehensive'' example_storage)) =
       Some (example_scan\<lparr>s_status := ''completed'', s_progress := Some 100,
               s_riskScore := Some 7, s_results := Some example_recon,
               s_completedAt := Some 2000\<rparr>)"
    using t1 example_recon_run a k by (simp add: g n r7)
  have sd: "subdomains example_storage = []" "currentSubdomainId example_storage = Suc 0"
    "r_subdomains example_recon = [''www.a.example.com'']"
    by (simp_all add: example_storage_def empty_storage_def example_recon_def)
  have s1: "subdomains (fst (performScan example_env 1 ''a.example.com'' ''comprehensive'' example_storage)) =
       [subdomain_row 1 1 ''www.a.example.com'']"
    using t1 example_recon_run a k by (simp add: sd)
  have m2: "map mapping_fields (mitreMappings (fst (performScan example_env_rejecting 1 ''a.example.com''
        ''comprehensive'' example_storage))) =
       [(1, ''T1190'', 90, Some ''public-facing'')]"
    by code_simp
  have p3: "progress_values (emitted (snd (performScan example_env_overflow 1 ''a.example.com''
        ''comprehensive'' example_storage))) = [0, 25, 50, 65, 80, 90]"
    using t3 example_recon_run_overflow a3 k3
    by (simp add: progress_values_def running_def List.map_filter_simps)
  have g3: "getScan 1 (fst (performScan example_env_overflow 1 ''a.example.com'' ''comprehensive''
        example_storage)) =
       Some (example_scan\<lparr>s_status := ''failed'', s_progress := Some 0,
               s_completedAt := Some 2000\<rparr>)"
    using t3 example_recon_run_overflow a3 k3 by (simp add: g n)
  show ?thesis
    using example_recon_run a k p1 w1 g1 s1 example_recon_run_rejecting a2 m2
      example_recon_run_overflow a3 k3 p3 g3
    by blast
qed

text \<open>
  Read to the letter, the specification has each event carry the progress the stored row
  holds; the event at checkpoint 25 is emitted while the row holds 0.
\<close>

theorem stage_checkpoints_counterexample:
  "\<not> events_carry_stored_progress (Some 0)
       (snd (performScan example_env 1 ''a.example.com'' ''comprehensive'' example_storage))"
  by code_simp

text \<open>
  C5. In the events of one scan the progress values carried are non-decreasing, the last
  event's status is completed or failed, and every event before the last has status
  running, so that nothing is emitted after the terminal event. (The failed event has no
  progress key.)
\<close>

theorem progress_events_monotone:
  "sorted (progress_values (emitted (snd (performScan env sid target ty db))))
   \<and> emitted (snd (performScan env sid target ty db)) \<noteq> []
   \<and> (e_status (last (emitted (snd (performScan env sid target ty db)))) = ''completed''
      \<or> e_status (last (emitted (snd (performScan env sid target ty db)))) = ''failed'')
   \<and> list_all (\<lambda>u. e_status u = ''running'')
        (butlast (emitted (snd (performScan env sid target ty db))))"
proof (cases "run_recon env target")
  case (Inl err)
  obtain m where "run_recon env target = Inl (Error m)"
    using Inl by (cases err) auto
  then show ?thesis
    unfolding performScan_invalid [OF \<open>run_recon env target = Inl (Error m)\<close>]
    by (simp add: progress_values_def running_def List.map_filter_simps)
next
  case (Inr recon)
  note recon = this
  show ?thesis
  proof (cases "env_analysis env")
    case (Inl e)
    show ?thesis
      unfolding performScan_inference_failed [OF recon Inl]
      by (simp add: progress_values_def running_def List.map_filter_simps)
  next
    case (Inr va)
    show ?thesis
    proof (cases "int32 (round (va_riskScore va))")
      case True
      show ?thesis
        unfolding performScan_completed [OF recon Inr True] Let_def
        by (simp add: progress_values_def running_def List.map_filter_simps)
    next
      case False
      show ?thesis
        unfolding performScan_rejected [OF recon Inr False] Let_def
        by (simp add: progress_values_def running_def List.map_filter_simps)
    qed
  qed
qed

theorem progress_events_monotone_witness:
  "progress_values (emitted (snd (performScan example_env 1 ''a.example.com'' ''comprehensive''
       example_storage))) = [0, 25, 50, 65, 80, 90, 100]
   \<and> sorted (progress_values (emitted (snd (performScan example_env 1 ''a.example.com''
       ''comprehensive'' example_storage))))
   \<and> e_status (last (emitted (snd (performScan example_env 1 ''a.example.com''
       ''comprehensive'' example_storage)))) = ''completed''
   \<and> list_all (\<lambda>u. e_status u = ''running'')
        (butlast (emitted (snd (performScan example_env 1 ''a.example.com'' ''comprehensive''
           example_storage))))"
proof -
  have p: "progress_values (emitted (snd (performScan example_env 1 ''a.example.com''
       ''comprehensive'' example_storage))) = [0, 25, 50, 65, 80, 90, 100]"
    by code_simp
  have l: "e_status (last (emitted (snd (performScan example_env 1 ''a.example.com''
       ''comprehensive'' example_storage)))) = ''completed''"
    by code_simp
  show ?thesis
    using progress_events_monotone [of example_env 1 "''a.example.com''" "''comprehensive''"
        example_storage] p l
    by blast
qed

section \<open>The submission boundary\<close>

text \<open>
  C1, as amended. The boundary rejects a request synchronously, creating no row, exactly
  when its target or its scan type is missing or empty. For every other target string,
  whether or not it passes the hostname/IPv4 grammar, a pending row is created and
  returned at once. A target that fails the grammar is refused afterwards, inside the
  background scan: its events are running 0, running 25 and one failed event with the
  message "Scan failed: Invalid target format", and its row ends with status failed.
\<close>

theorem submission_boundary_amended:
  "post_scans now body db =
     (case (b_target body, b_scanType body) of
        (Some t, Some k) \<Rightarrow>
          if t = [] \<or> k = [] then (Status400 ''Invalid scan data'', db, None)
          else (Json \<lparr>s_id = currentScanId db, s_target = t, s_scanType = k,
                      s_status = ''pending'', s_progress = Some 0, s_riskScore = None,
                      s_results = None, s_createdAt = Some now, s_completedAt = None\<rparr>,
                db\<lparr>scans := scans db @
                     [\<lparr>s_id = currentScanId db, s_target = t, s_scanType = k,
                       s_status = ''pending'', s_progress = Some 0, s_riskScore = None,
                       s_results = None, s_createdAt = Some now, s_completedAt = None\<rparr>],
                   currentScanId := currentScanId db + 1\<rparr>,
                Some (currentScanId db, t, k))
      | (None, _) \<Rightarrow> (Status400 ''Invalid scan data'', db, None)
      | (_, None) \<Rightarrow> (Status400 ''Invalid scan data'', db, None))
   \<and> (\<not> validateTarget target \<longrightarrow>
        emitted (snd (performScan env sid target ty db')) =
          [running 0 None,
           running 25 (Some ''Starting reconnaissance...''),
           \<lparr>e_status = ''failed'', e_progress = None,
            e_message = Some ''Scan failed: Invalid target format'', e_riskScore = None\<rparr>]
        \<and> getScan sid (fst (performScan env sid target ty db')) =
            map_option (\<lambda>s. s\<lparr>s_status := ''failed'', s_progress := Some 0,
                                 s_completedAt := Some (env_now env)\<rparr>) (getScan sid db'))"
proof -
  have boundary: "post_scans now body db =
     (case (b_target body, b_scanType body) of
        (Some t, Some k) \<Rightarrow>
          if t = [] \<or> k = [] then (Status400 ''Invalid scan data'', db, None)
          else (Json \<lparr>s_id = currentScanId db, s_target = t, s_scanType = k,
                      s_status = ''pending'', s_progress = Some 0, s_riskScore = None,
                      s_results = None, s_createdAt = Some now, s_completedAt = None\<rparr>,
                db\<lparr>scans := scans db @
                     [\<lparr>s_id = currentScanId db, s_target = t, s_scanType = k,
                       s_status = ''pending'', s_progress = Some 0, s_riskScore = None,
                       s_results = None, s_createdAt = Some now, s_completedAt = None\<rparr>],
                   currentScanId := currentScanId db + 1\<rparr>,
                Some (currentScanId db, t, k))
      | (None, _) \<Rightarrow> (Status400 ''Invalid scan data'', db, None)
      | (_, None) \<Rightarrow> (Status400 ''Invalid scan data'', db, None))"
    by (simp add: post_scans_def scanRequestSchema_parse_def createScan_def Let_def
        split: option.splits)
  have background: "emitted (snd (performScan env sid target ty db')) =
          [running 0 None,
           running 25 (Some ''Starting reconnaissance...''),
           \<lparr>e_status = ''failed'', e_progress = None,
            e_message = Some ''Scan failed: Invalid target format'', e_riskScore = None\<rparr>]
        \<and> getScan sid (fst (performScan env sid target ty db')) =
            map_option (\<lambda>s. s\<lparr>s_status := ''failed'', s_progress := Some 0,
                                 s_completedAt := Some (env_now env)\<rparr>) (getScan sid db')"
    if "\<not> validateTarget target"
  proof -
    have "run_recon env target = Inl (Error ''Invalid target format'')"
      using that by (simp add: run_recon_def performReconnaissance_def)
    then show ?thesis
      unfolding performScan_invalid [OF \<open>run_recon env target = Inl (Error ''Invalid target format'')\<close>]
      by (simp add: getScan_set_scan patch_failed_after_running)
  qed
  show ?thesis
    using boundary background by blast
qed

theorem submission_boundary_amended_witness:
  "\<not> validateTarget ''exa mple.com''
   \<and> post_scans 1000 invalid_request empty_storage =
       (Json (example_scan\<lparr>s_target := ''exa mple.com''\<rparr>),
        empty_storage\<lparr>scans := [example_scan\<lparr>s_target := ''exa mple.com''\<rparr>], currentScanId := 2\<rparr>,
        Some (1, ''exa mple.com'', ''comprehensive''))
   \<and> emitted (snd (performScan example_env 1 ''exa mple.com'' ''comprehensive''
         (empty_storage\<lparr>scans := [example_scan\<lparr>s_target := ''exa mple.com''\<rparr>], currentScanId := 2\<rparr>))) =
          [running 0 None,
           running 25 (Some ''Starting reconnaissance...''),
           \<lparr>e_status = ''failed'', e_progress = None,
            e_message = Some ''Scan failed: Invalid target format'', e_riskScore = None\<rparr>]"
proof -
  have v: "\<not> validateTarget ''exa mple.com''"
    by code_simp
  have p: "post_scans 1000 invalid_request empty_storage =
       (Json (example_scan\<lparr>s_target := ''exa mple.com''\<rparr>),
        empty_storage\<lparr>scans := [example_scan\<lparr>s_target := ''exa mple.com''\<rparr>], currentScanId := 2\<rparr>,
        Some (1, ''exa mple.com'', ''comprehensive''))"
    by code_simp
  show ?thesis
    using submission_boundary_amended [of 1000 invalid_request empty_storage "''exa mple.com''"
        example_env 1 "''comprehensive''"
        "empty_storage\<lparr>scans := [example_scan\<lparr>s_target := ''exa mple.com''\<rparr>], currentScanId := 2\<rparr>"]
      v p
    by blast
qed

text \<open>
  Read to the letter, the specification has the boundary reject every target that fails
  the grammar, and names 256.1.1.1 as one. A target that fails the grammar gets a row;
  and 256.1.1.1 passes the grammar (as a host name of four numeric labels) and gets a
  row too.
\<close>

theorem submission_boundary_counterexample:
  "\<not> validateTarget ''exa mple.com''
   \<and> fst (post_scans 1000 invalid_request empty_storage) =
       Json (example_scan\<lparr>s_target := ''exa mple.com''\<rparr>)
   \<and> scans (fst (snd (post_scans 1000 invalid_request empty_storage))) =
       [example_scan\<lparr>s_target := ''exa mple.com''\<rparr>]
   \<and> validateTarget ''256.1.1.1''
   \<and> fst (post_scans 1000 octet_request empty_storage) =
       Json (example_scan\<lparr>s_target := ''256.1.1.1''\<rparr>)
   \<and> scans (fst (snd (post_scans 1000 octet_request empty_storage))) =
       [example_scan\<lparr>s_target := ''256.1.1.1''\<rparr>]"
  by code_simp

section \<open>The progress broadcaster\<close>

text \<open>
  C7, as amended. \<^verbatim>\<open>broadcastUpdate\<close> sends the message to every registered observer
  whose channel is open and skips every other one, whatever the state of the rest; it
  leaves the registry as it is. An observer is unregistered by its own \<^verbatim>\<open>close\<close>
  handler only.
\<close>

theorem publish_delivery_amended:
  "map fst (broadcastUpdate sid u clients) = map fst clients
   \<and> map (\<lambda>(cid, c). ws_readyState c) (broadcastUpdate sid u clients) =
       map (\<lambda>(cid, c). ws_readyState c) clients
   \<and> map (\<lambda>(cid, c). ws_sent c) (broadcastUpdate sid u clients) =
       map (\<lambda>(cid, c).
              if ws_readyState c = OPEN
              then ws_sent c @ [\<lparr>msg_type = ''scan_update'', msg_scanId = sid, msg_data = u\<rparr>]
              else ws_sent c) clients
   \<and> on_close cid clients = filter (\<lambda>(k, c). k \<noteq> cid) clients"
  by (induction clients) (auto simp add: broadcastUpdate_def on_close_def AList.delete_eq Let_def)

theorem publish_delivery_amended_witness:
  "broadcastUpdate 1 (running 25 None) example_clients =
     [(''k3j9x0a1b'', \<lparr>ws_readyState = CLOSED, ws_sent = []\<rparr>),
      (''z8w7v6u5t'', \<lparr>ws_readyState = OPEN,
          ws_sent = [\<lparr>msg_type = ''scan_update'', msg_scanId = 1, msg_data = running 25 None\<rparr>]\<rparr>)]
   \<and> map fst (broadcastUpdate 1 (running 25 None) example_clients) = map fst example_clients
   \<and> on_close ''k3j9x0a1b'' example_clients =
       [(''z8w7v6u5t'', \<lparr>ws_readyState = OPEN, ws_sent = []\<rparr>)]"
proof -
  have b: "broadcastUpdate 1 (running 25 None) example_clients =
     [(''k3j9x0a1b'', \<lparr>ws_readyState = CLOSED, ws_sent = []\<rparr>),
      (''z8w7v6u5t'', \<lparr>ws_readyState = OPEN,
          ws_sent = [\<lparr>msg_type = ''scan_update'', msg_scanId = 1, msg_data = running 25 None\<rparr>]\<rparr>)]"
    by code_simp
  have c: "on_close ''k3j9x0a1b'' example_clients =
       [(''z8w7v6u5t'', \<lparr>ws_readyState = OPEN, ws_sent = []\<rparr>)]"
    by code_simp
  show ?thesis
    using publish_delivery_amended [of 1 "running 25 None" example_clients "''k3j9x0a1b''"] b c
    by blast
qed

text \<open>
  Read to the letter, the specification has \<^verbatim>\<open>publish\<close> unregister a closed channel;
  after the broadcast the closed channel is still in the registry.
\<close>

theorem publish_unregister_counterexample:
  "map (\<lambda>(cid, c). (cid, ws_readyState c)) (broadcastUpdate 1 (running 25 None) example_clients) =
     [(''k3j9x0a1b'', CLOSED), (''z8w7v6u5t'', OPEN)]"
  by code_simp

end
